theory Spec2Isabelle
  imports Complex_Main "HOL-Library.Sublist"
begin

section \<open>Strings as the Python code uses them\<close>

text \<open>
  A Python \<open>str\<close> is modelled as a \<open>string\<close> (a list of characters).
  \<open>s.startswith(p)\<close> is \<open>prefix p s\<close>, \<open>p in s\<close> is \<open>sublist p s\<close>
  (a contiguous occurrence), \<open>len(s)\<close> is \<open>length s\<close> and \<open>not s\<close> is \<open>s = []\<close>.
\<close>

definition newline :: char where
  "newline = CHR 0x0A"

section \<open>Credential store: token shape (token\_manager.py)\<close>

text \<open>
  The character class \<open>[A-Za-z0-9_-]\<close> of the pattern in
  \<open>SecureTokenManager._validate_token\<close>.
\<close>

definition token_char :: "char \<Rightarrow> bool" where
  "token_char c \<longleftrightarrow>
     c \<in> set ''ABCDEFGHIJKLMNOPQRSTUVWXYZabcdefghijklmnopqrstuvwxyz0123456789_-''"

text \<open>
  \<open>re.match(r'^pat_[A-Za-z0-9_-]+$', token)\<close>. The match is anchored at the start; the
  class is repeated greedily at least once; and Python's \<open>$\<close> (without the MULTILINE
  flag) matches at the end of the string and also just before a newline that is the last
  character of the string. No character of the class is a newline, so backtracking into a
  shorter repetition never helps, and the match succeeds exactly when what follows the
  longest run of class characters is nothing or a single final newline.
\<close>

definition re_match_token :: "string \<Rightarrow> bool" where
  "re_match_token token \<longleftrightarrow>
     prefix ''pat_'' token \<and>
     (let rest = drop 4 token;
          body = takeWhile token_char rest;
          after = dropWhile token_char rest
      in body \<noteq> [] \<and> (after = [] \<or> after = [newline]))"

text \<open>\<open>SecureTokenManager._validate_token\<close>, check by check in the source's order.\<close>

definition validate_token :: "string \<Rightarrow> bool" where
  "validate_token token =
     (if token = [] then False
      else if \<not> prefix ''pat_'' token then False
      else if length token < 50 \<or> length token > 200 then False
      else if \<not> re_match_token token then False
      else True)"

text \<open>The shape the specification states: prefix, length in [50,200], class after the prefix.\<close>

definition token_shape :: "string \<Rightarrow> bool" where
  "token_shape t \<longleftrightarrow>
     prefix ''pat_'' t \<and> 50 \<le> length t \<and> length t \<le> 200 \<and> list_all token_char (drop 4 t)"

section \<open>Job orchestrator: generation parameters (\_create\_asset)\<close>

text \<open>
  JSON numbers as Python holds them. An argument declared \<open>integer\<close> in the tool schema
  is an \<open>int\<close>; one declared \<open>number\<close> is an \<open>int\<close> or a \<open>float\<close>. A float
  is a finite value, an infinity or NaN (Python's JSON reader accepts all of them); a
  finite float is represented by the real number it denotes.
\<close>

datatype pyfloat = Fin real | PosInf | NegInf | NaN

datatype pynum = PInt int | PFloat pyfloat

text \<open>The exception that building the parameters can raise.\<close>

datatype py_error = OverflowError

fun num_val :: "pynum \<Rightarrow> pyfloat" where
  "num_val (PInt i) = Fin (of_int i)"
| "num_val (PFloat f) = f"

text \<open>Python's \<open>a < b\<close> on floats: every comparison with NaN is false.\<close>

fun float_lt :: "pyfloat \<Rightarrow> pyfloat \<Rightarrow> bool" where
  "float_lt (Fin a) (Fin b) = (a < b)"
| "float_lt (Fin a) PosInf = True"
| "float_lt NegInf (Fin b) = True"
| "float_lt NegInf PosInf = True"
| "float_lt _ _ = False"

definition num_lt :: "pynum \<Rightarrow> pynum \<Rightarrow> bool" where
  "num_lt a b = float_lt (num_val a) (num_val b)"

text \<open>
  The builtins \<open>min(a, b)\<close> and \<open>max(a, b)\<close>: the first argument is kept unless the
  second is strictly smaller (for \<open>min\<close>) or strictly larger (for \<open>max\<close>).
\<close>

definition py_min :: "pynum \<Rightarrow> pynum \<Rightarrow> pynum" where
  "py_min a b = (if num_lt b a then b else a)"

definition py_max :: "pynum \<Rightarrow> pynum \<Rightarrow> pynum" where
  "py_max a b = (if num_lt a b then b else a)"

text \<open>
  \<open>float(x)\<close> on a number: a float is returned as it is; an int is converted, and an int
  too large for a double raises \<open>OverflowError\<close> (from \<open>2^1024 - 2^970\<close> on, where
  rounding to nearest leaves the finite range). The conversion of a smaller int rounds to
  the nearest double; rounding is monotone and fixes \<open>0.0\<close> and \<open>1.0\<close>, so it does not
  change the clamped value and is left out.
\<close>

definition float_overflow_bound :: int where
  "float_overflow_bound = 2 ^ 1024 - 2 ^ 970"

fun py_float :: "pynum \<Rightarrow> py_error + pynum" where
  "py_float (PFloat f) = Inr (PFloat f)"
| "py_float (PInt i) =
     (if \<bar>i\<bar> \<ge> float_overflow_bound then Inl OverflowError else Inr (PFloat (Fin (of_int i))))"

text \<open>
  The caller's arguments that the claim is about. \<open>None\<close> is an absent key:
  \<open>arguments.get("width", 512)\<close> then yields the default, and
  \<open>arguments.get("creativity")\<close> yields \<open>None\<close>.
\<close>

record arguments =
  arg_width :: "int option"
  arg_height :: "int option"
  arg_steps :: "int option"
  arg_guidance_scale :: "pynum option"
  arg_creativity :: "pynum option"
  arg_resemblance :: "pynum option"

record parameters =
  width :: int
  height :: int
  numInferenceSteps :: int
  guidanceScale :: pynum
  creativity :: "pynum option"
  resemblance :: "pynum option"

definition get_or :: "'a option \<Rightarrow> 'a \<Rightarrow> 'a" where
  "get_or v d = (case v of None \<Rightarrow> d | Some x \<Rightarrow> x)"

text \<open>
  \<open>parameters["creativity"] = max(0.0, min(1.0, float(creativity)))\<close>, executed only
  when the value is not \<open>None\<close>.
\<close>

definition clamp_unit :: "pynum option \<Rightarrow> py_error + pynum option" where
  "clamp_unit v =
     (case v of
        None \<Rightarrow> Inr None
      | Some x \<Rightarrow>
          (case py_float x of
             Inl e \<Rightarrow> Inl e
           | Inr f \<Rightarrow> Inr (Some (py_max (PFloat (Fin 0)) (py_min (PFloat (Fin 1)) f)))))"

text \<open>
  The part of \<open>_create_asset\<close> that builds the six clamped entries of \<open>parameters\<close>
  (source lines 382 to 386 and 425 to 428). An exception leaves \<open>_create_asset\<close> through
  its outer handler, and nothing is submitted.
\<close>

definition create_asset_parameters :: "arguments \<Rightarrow> py_error + parameters" where
  "create_asset_parameters a =
     (let w = max 64 (min 2048 (get_or (arg_width a) 512));
          h = max 64 (min 2048 (get_or (arg_height a) 512));
          s = max 1 (min 100 (get_or (arg_steps a) 20));
          g = py_max (PFloat (Fin 1))
                (py_min (PFloat (Fin 20)) (get_or (arg_guidance_scale a) (PFloat (Fin 7.5))))
      in case clamp_unit (arg_creativity a) of
           Inl e \<Rightarrow> Inl e
         | Inr c \<Rightarrow>
             (case clamp_unit (arg_resemblance a) of
                Inl e \<Rightarrow> Inl e
              | Inr r \<Rightarrow>
                  Inr \<lparr>width = w, height = h, numInferenceSteps = s, guidanceScale = g,
                       creativity = c, resemblance = r\<rparr>))"

text \<open>A number lies in the closed range from \<open>lo\<close> to \<open>hi\<close>: it is finite and between them.\<close>

definition in_range :: "real \<Rightarrow> real \<Rightarrow> pynum \<Rightarrow> bool" where
  "in_range lo hi x = (case num_val x of Fin r \<Rightarrow> lo \<le> r \<and> r \<le> hi | _ \<Rightarrow> False)"

definition opt_in_range :: "real \<Rightarrow> real \<Rightarrow> pynum option \<Rightarrow> bool" where
  "opt_in_range lo hi v = (case v of None \<Rightarrow> True | Some x \<Rightarrow> in_range lo hi x)"

text \<open>
  Clamping in the words of the specification: a value inside the range is kept, a value
  below it becomes the lower bound, a value above it the upper bound. For a number the
  bounds are floats, and a value equal to a bound becomes that bound (an int 1 becomes
  1.0); a value that is not finite counts as below the range when it is minus infinity
  and as above it otherwise.
\<close>

definition clamped :: "int \<Rightarrow> int \<Rightarrow> int \<Rightarrow> int" where
  "clamped lo hi x = (if x < lo then lo else if hi < x then hi else x)"

definition clamped_num :: "real \<Rightarrow> real \<Rightarrow> pynum \<Rightarrow> pynum" where
  "clamped_num lo hi x =
     (case num_val x of
        Fin r \<Rightarrow> if r \<le> lo then PFloat (Fin lo) else if hi \<le> r then PFloat (Fin hi) else x
      | NegInf \<Rightarrow> PFloat (Fin lo)
      | PosInf \<Rightarrow> PFloat (Fin hi)
      | NaN \<Rightarrow> PFloat (Fin hi))"

definition width_10000 :: arguments where
  "width_10000 = \<lparr>arg_width = Some 10000, arg_height = None, arg_steps = None,
     arg_guidance_scale = None, arg_creativity = Some (PFloat NaN),
     arg_resemblance = Some (PInt 7)\<rparr>"

section \<open>File transfer: extension resolution (\_determine\_file\_extension)\<close>

text \<open>
  \<open>str.lower()\<close> on the ASCII letters. Among the first 256 code points, which a
  \<open>char\<close> holds, the characters outside ASCII lower to characters outside ASCII, so
  they play no part in the tests below.
\<close>

definition lower_char :: "char \<Rightarrow> char" where
  "lower_char c =
     (case map_of (zip ''ABCDEFGHIJKLMNOPQRSTUVWXYZ'' ''abcdefghijklmnopqrstuvwxyz'') c of
        None \<Rightarrow> c
      | Some d \<Rightarrow> d)"

definition lower :: "string \<Rightarrow> string" where
  "lower s = map lower_char s"

text \<open>
  \<open>Path(filename).suffix\<close> of pathlib, for POSIX paths: the name is the last component
  of the path (empty components and \<open>.\<close> components are dropped), and the suffix is the
  part of the name from its last dot on, when that dot is neither the first nor the last
  character of the name; otherwise it is empty.
\<close>

fun split_on :: "char \<Rightarrow> string \<Rightarrow> string list" where
  "split_on sep [] = [[]]"
| "split_on sep (c # cs) =
     (if c = sep then [] # split_on sep cs
      else (case split_on sep cs of
              [] \<Rightarrow> [[c]]
            | p # ps \<Rightarrow> (c # p) # ps))"

definition path_name :: "string \<Rightarrow> string" where
  "path_name s =
     (case filter (\<lambda>p. p \<noteq> [] \<and> p \<noteq> ''.'') (split_on CHR ''/'' s) of
        [] \<Rightarrow> []
      | p # ps \<Rightarrow> last (p # ps))"

definition path_suffix :: "string \<Rightarrow> string" where
  "path_suffix s =
     (let name = path_name s;
          ext = rev (takeWhile (\<lambda>c. c \<noteq> CHR ''.'') (rev name));
          i = length name - length ext - 1
      in if CHR ''.'' \<in> set name \<and> 0 < i \<and> i < length name - 1 then drop i name else [])"

text \<open>\<open>_determine_file_extension\<close> of production\_ready\_layer\_ai\_server.py.\<close>

definition determine_file_extension :: "string \<Rightarrow> string \<Rightarrow> string" where
  "determine_file_extension content_type filename =
     (let content_type_lower = lower content_type in
      if sublist ''image'' content_type_lower then
        (if sublist ''png'' content_type_lower then ''.png''
         else if sublist ''jpeg'' content_type_lower \<or> sublist ''jpg'' content_type_lower
           then ''.jpg''
         else if sublist ''gif'' content_type_lower then ''.gif''
         else if sublist ''svg'' content_type_lower then ''.svg''
         else if sublist ''webp'' content_type_lower then ''.webp''
         else ''.png'')
      else if sublist ''video'' content_type_lower then
        (if sublist ''mp4'' content_type_lower then ''.mp4''
         else if sublist ''webm'' content_type_lower then ''.webm''
         else ''.mp4'')
      else if sublist ''audio'' content_type_lower then
        (if sublist ''wav'' content_type_lower then ''.wav''
         else if sublist ''mp3'' content_type_lower then ''.mp3''
         else ''.wav'')
      else if sublist ''model'' content_type_lower
              \<or> sublist ''application/octet-stream'' content_type_lower then ''.glb''
      else (let file_ext = path_suffix filename in
            if file_ext \<noteq> [] then file_ext else ''.png''))"

text \<open>\<open>_determine_file_extension\<close> of critical\_bug\_fixes.py.\<close>

definition determine_file_extension_cbf :: "string \<Rightarrow> string \<Rightarrow> string" where
  "determine_file_extension_cbf content_type filename =
     (let content_type_lower = lower content_type in
      if sublist ''image'' content_type_lower then
        (if sublist ''png'' content_type_lower then ''.png''
         else if sublist ''jpeg'' content_type_lower \<or> sublist ''jpg'' content_type_lower
           then ''.jpg''
         else if sublist ''gif'' content_type_lower then ''.gif''
         else if sublist ''svg'' content_type_lower then ''.svg''
         else if sublist ''webp'' content_type_lower then ''.webp''
         else ''.png'')
      else if sublist ''video'' content_type_lower then
        (if sublist ''mp4'' content_type_lower then ''.mp4''
         else if sublist ''webm'' content_type_lower then ''.webm''
         else if sublist ''avi'' content_type_lower then ''.avi''
         else ''.mp4'')
      else if sublist ''audio'' content_type_lower then
        (if sublist ''wav'' content_type_lower then ''.wav''
         else if sublist ''mp3'' content_type_lower then ''.mp3''
         else if sublist ''ogg'' content_type_lower then ''.ogg''
         else ''.wav'')
      else if sublist ''model'' content_type_lower
              \<or> sublist ''application/octet-stream'' content_type_lower then ''.glb''
      else (let file_ext = path_suffix filename in
            if file_ext \<noteq> [] then file_ext else ''.png''))"

text \<open>
  The words the source tests for, and the families of the table. A content type is in a
  family when the family's word occurs in its lower-cased form and no earlier family's
  word does.
\<close>

definition has_word :: "string \<Rightarrow> string \<Rightarrow> bool" where
  "has_word w content_type = sublist w (lower content_type)"

definition image_family :: "string \<Rightarrow> bool" where
  "image_family ct = has_word ''image'' ct"

definition video_family :: "string \<Rightarrow> bool" where
  "video_family ct = (\<not> has_word ''image'' ct \<and> has_word ''video'' ct)"

definition audio_family :: "string \<Rightarrow> bool" where
  "audio_family ct =
     (\<not> has_word ''image'' ct \<and> \<not> has_word ''video'' ct \<and> has_word ''audio'' ct)"

definition model_family :: "string \<Rightarrow> bool" where
  "model_family ct =
     (\<not> has_word ''image'' ct \<and> \<not> has_word ''video'' ct \<and> \<not> has_word ''audio'' ct \<and>
      (has_word ''model'' ct \<or> has_word ''application/octet-stream'' ct))"

definition no_family :: "string \<Rightarrow> bool" where
  "no_family ct =
     (\<not> has_word ''image'' ct \<and> \<not> has_word ''video'' ct \<and> \<not> has_word ''audio'' ct \<and>
      \<not> has_word ''model'' ct \<and> \<not> has_word ''application/octet-stream'' ct)"

text \<open>
  The table as the source applies it. Within a family the first word found, in the
  table's order, decides; otherwise the family's default. Nothing is said here about a
  video type that has \<open>avi\<close> but neither \<open>mp4\<close> nor \<open>webm\<close>, nor about an audio
  type that has \<open>ogg\<close> but neither \<open>wav\<close> nor \<open>mp3\<close>: the two variants differ there.
\<close>

definition resolves_by_table :: "(string \<Rightarrow> string \<Rightarrow> string) \<Rightarrow> bool" where
  "resolves_by_table f \<longleftrightarrow>
     (\<forall>ct fn.
        (image_family ct \<longrightarrow>
           f ct fn =
             (if has_word ''png'' ct then ''.png''
              else if has_word ''jpeg'' ct \<or> has_word ''jpg'' ct then ''.jpg''
              else if has_word ''gif'' ct then ''.gif''
              else if has_word ''svg'' ct then ''.svg''
              else if has_word ''webp'' ct then ''.webp''
              else ''.png'')) \<and>
        (video_family ct \<and> (has_word ''mp4'' ct \<or> has_word ''webm'' ct \<or> \<not> has_word ''avi'' ct) \<longrightarrow>
           f ct fn = (if has_word ''mp4'' ct then ''.mp4''
                      else if has_word ''webm'' ct then ''.webm'' else ''.mp4'')) \<and>
        (audio_family ct \<and> (has_word ''wav'' ct \<or> has_word ''mp3'' ct \<or> \<not> has_word ''ogg'' ct) \<longrightarrow>
           f ct fn = (if has_word ''wav'' ct then ''.wav''
                      else if has_word ''mp3'' ct then ''.mp3'' else ''.wav'')) \<and>
        (model_family ct \<longrightarrow> f ct fn = ''.glb'') \<and>
        (no_family ct \<longrightarrow>
           f ct fn = (if path_suffix fn \<noteq> [] then path_suffix fn else ''.png'')))"

text \<open>The content types that the specification's table writes out, with their extensions.\<close>

definition table_rows :: "(string \<times> string) list" where
  "table_rows =
     [(''image/png'', ''.png''), (''image/jpeg'', ''.jpg''), (''image/jpg'', ''.jpg''),
      (''image/gif'', ''.gif''), (''image/svg'', ''.svg''), (''image/webp'', ''.webp''),
      (''video/mp4'', ''.mp4''), (''video/webm'', ''.webm''),
      (''audio/wav'', ''.wav''), (''audio/mp3'', ''.mp3''),
      (''application/octet-stream'', ''.glb'')]"

definition table_rows_cbf :: "(string \<times> string) list" where
  "table_rows_cbf = [(''video/avi'', ''.avi''), (''audio/ogg'', ''.ogg'')]"

definition maps_rows :: "(string \<Rightarrow> string \<Rightarrow> string) \<Rightarrow> (string \<times> string) list \<Rightarrow> bool" where
  "maps_rows f rows \<longleftrightarrow> (\<forall>fn. list_all (\<lambda>(ct, ext). f ct fn = ext) rows)"

section \<open>JSON documents as Python reads them\<close>

text \<open>
  What \<open>response.json()\<close> returns: \<open>None\<close>, a bool, a number, a string, a list or
  a dict (given by its items; the keys of a decoded dict are strings and distinct).
\<close>

datatype jvalue =
    JNull
  | JBool bool
  | JNum pynum
  | JText string
  | JList "jvalue list"
  | JDict "(string \<times> jvalue) list"

text \<open>The exceptions that the operations below raise.\<close>

datatype py_exception = PyTypeError | PyKeyError | PyIndexError | PyAttributeError

text \<open>The truth value of a document, as \<open>if not x\<close> tests it.\<close>

fun num_nonzero :: "pynum \<Rightarrow> bool" where
  "num_nonzero (PInt i) = (i \<noteq> 0)"
| "num_nonzero (PFloat (Fin r)) = (r \<noteq> 0)"
| "num_nonzero (PFloat f) = True"

fun py_truth :: "jvalue \<Rightarrow> bool" where
  "py_truth JNull = False"
| "py_truth (JBool b) = b"
| "py_truth (JNum n) = num_nonzero n"
| "py_truth (JText s) = (s \<noteq> [])"
| "py_truth (JList xs) = (xs \<noteq> [])"
| "py_truth (JDict items) = (items \<noteq> [])"

text \<open>
  \<open>key in x\<close> for a string \<open>key\<close>: a key of a dict, an element of a list, a
  substring of a string; anything else is not iterable.
\<close>

fun py_in :: "string \<Rightarrow> jvalue \<Rightarrow> py_exception + bool" where
  "py_in key (JDict items) = Inr (key \<in> set (map fst items))"
| "py_in key (JList xs) = Inr (JText key \<in> set xs)"
| "py_in key (JText s) = Inr (sublist key s)"
| "py_in key JNull = Inl PyTypeError"
| "py_in key (JBool b) = Inl PyTypeError"
| "py_in key (JNum n) = Inl PyTypeError"

text \<open>\<open>x[key]\<close> for a string \<open>key\<close>: only a dict can be indexed by a string.\<close>

fun py_item :: "jvalue \<Rightarrow> string \<Rightarrow> py_exception + jvalue" where
  "py_item (JDict items) key =
     (case map_of items key of None \<Rightarrow> Inl PyKeyError | Some v \<Rightarrow> Inr v)"
| "py_item JNull key = Inl PyTypeError"
| "py_item (JBool b) key = Inl PyTypeError"
| "py_item (JNum n) key = Inl PyTypeError"
| "py_item (JText s) key = Inl PyTypeError"
| "py_item (JList xs) key = Inl PyTypeError"

text \<open>
  \<open>x[0]\<close>: the first element of a list, the first character of a string; a decoded
  dict has no key \<open>0\<close>; anything else cannot be subscripted.
\<close>

fun py_first :: "jvalue \<Rightarrow> py_exception + jvalue" where
  "py_first (JList []) = Inl PyIndexError"
| "py_first (JList (x # xs)) = Inr x"
| "py_first (JText []) = Inl PyIndexError"
| "py_first (JText (c # cs)) = Inr (JText [c])"
| "py_first (JDict items) = Inl PyKeyError"
| "py_first JNull = Inl PyTypeError"
| "py_first (JBool b) = Inl PyTypeError"
| "py_first (JNum n) = Inl PyTypeError"

text \<open>\<open>x.get(key, default)\<close>: only a dict has the method.\<close>

fun py_get :: "jvalue \<Rightarrow> string \<Rightarrow> jvalue \<Rightarrow> py_exception + jvalue" where
  "py_get (JDict items) key dflt =
     Inr (case map_of items key of None \<Rightarrow> dflt | Some v \<Rightarrow> v)"
| "py_get JNull key dflt = Inl PyAttributeError"
| "py_get (JBool b) key dflt = Inl PyAttributeError"
| "py_get (JNum n) key dflt = Inl PyAttributeError"
| "py_get (JText s) key dflt = Inl PyAttributeError"
| "py_get (JList xs) key dflt = Inl PyAttributeError"

section \<open>Transport client (\_make\_graphql\_request)\<close>

text \<open>
  What one HTTP POST can do: raise (connection error, timeout), or answer with a status
  code and a body. The body of a 200 answer is read with \<open>response.json()\<close>, which
  raises when the body is not JSON and returns the decoded document otherwise.
\<close>

datatype body = NotJson | Json jvalue

datatype http_outcome = Raises string | Replies nat body

text \<open>
  The exceptions of the transport client, by what raised them. \<open>GraphQLError m\<close> is the
  \<open>Exception("GraphQL error: m")\<close> of line 204, \<open>Raised x\<close> an exception of reading the
  decoded document, and \<open>RetriesExhausted n e\<close> the final
  \<open>Exception("GraphQL request failed after n attempts: e")\<close>.
\<close>

datatype request_error =
    Transport string
  | ApiRequestFailed nat
  | JsonDecodeError
  | GraphQLError jvalue
  | Raised py_exception
  | RetriesExhausted nat "request_error option"

text \<open>
  Lines 202 to 205: \<open>if "errors" in result\<close>, then
  \<open>result['errors'][0].get('message', 'Unknown GraphQL error')\<close> and the raise;
  otherwise \<open>return result\<close>.
\<close>

definition check_errors :: "jvalue \<Rightarrow> request_error + jvalue" where
  "check_errors result =
     (case py_in ''errors'' result of
        Inl x \<Rightarrow> Inl (Raised x)
      | Inr False \<Rightarrow> Inr result
      | Inr True \<Rightarrow>
          (case py_item result ''errors'' of
             Inl x \<Rightarrow> Inl (Raised x)
           | Inr errs \<Rightarrow>
               (case py_first errs of
                  Inl x \<Rightarrow> Inl (Raised x)
                | Inr first_error \<Rightarrow>
                    (case py_get first_error ''message'' (JText ''Unknown GraphQL error'') of
                       Inl x \<Rightarrow> Inl (Raised x)
                     | Inr error_msg \<Rightarrow> Inl (GraphQLError error_msg)))))"

text \<open>
  The body of the \<open>try\<close> of one attempt. Every exception raised in it, the
  \<open>GraphQL error\<close> included, is caught by the \<open>except Exception\<close> of the same attempt.
\<close>

fun attempt_once :: "http_outcome \<Rightarrow> request_error + jvalue" where
  "attempt_once (Raises m) = Inl (Transport m)"
| "attempt_once (Replies status_code b) =
     (if status_code = 200 then
        (case b of
           NotJson \<Rightarrow> Inl JsonDecodeError
         | Json result \<Rightarrow> check_errors result)
      else Inl (ApiRequestFailed status_code))"

record request_run =
  outcome :: "request_error + jvalue"
  attempts :: nat
  sleeps :: "nat list"

text \<open>
  The loop \<open>for attempt in range(max_retries)\<close>. \<open>w attempt\<close> is what the POST of that
  attempt does; \<open>slept\<close> collects the arguments of \<open>asyncio.sleep\<close> in order.
\<close>

function request_loop ::
  "(nat \<Rightarrow> http_outcome) \<Rightarrow> nat \<Rightarrow> nat \<Rightarrow> request_error option \<Rightarrow> nat list \<Rightarrow> request_run" where
  "request_loop w max_retries attempt last_error slept =
     (if attempt < max_retries then
        (case attempt_once (w attempt) of
           Inr result \<Rightarrow> \<lparr>outcome = Inr result, attempts = attempt + 1, sleeps = slept\<rparr>
         | Inl e \<Rightarrow>
             request_loop w max_retries (attempt + 1) (Some e)
               (if attempt < max_retries - 1 then slept @ [2 ^ attempt] else slept))
      else \<lparr>outcome = Inl (RetriesExhausted max_retries last_error),
             attempts = attempt, sleeps = slept\<rparr>)"
  by pat_completeness auto
termination
  by (relation "measure (\<lambda>(w, max_retries, attempt, last_error, slept). max_retries - attempt)")
    auto

text \<open>Every call site leaves \<open>max_retries\<close> at its default, 3.\<close>

definition make_graphql_request :: "(nat \<Rightarrow> http_outcome) \<Rightarrow> request_run" where
  "make_graphql_request w = request_loop w 3 0 None []"

definition failed_attempt :: "http_outcome \<Rightarrow> bool" where
  "failed_attempt r = (case attempt_once r of Inl e \<Rightarrow> True | Inr x \<Rightarrow> False)"

definition attempt_error :: "http_outcome \<Rightarrow> request_error option" where
  "attempt_error r = (case attempt_once r of Inl e \<Rightarrow> Some e | Inr x \<Rightarrow> None)"

text \<open>
  The 200 bodies that an attempt returns: a dict without the key \<open>errors\<close>, a list
  that does not hold the string \<open>errors\<close>, a string that does not contain it.
\<close>

fun returned_body :: "jvalue \<Rightarrow> bool" where
  "returned_body (JDict items) = (''errors'' \<notin> set (map fst items))"
| "returned_body (JList xs) = (JText ''errors'' \<notin> set xs)"
| "returned_body (JText s) = (\<not> sublist ''errors'' s)"
| "returned_body JNull = False"
| "returned_body (JBool b) = False"
| "returned_body (JNum n) = False"

text \<open>
  A server that first answers 200 with a body carrying an error list, then 200 with a clean
  body; and one that answers every request with the error list.
\<close>

definition rejection :: jvalue where
  "rejection = JDict [(''errors'', JList [JDict [(''message'', JText ''quota exceeded'')]])]"

definition fine_body :: jvalue where
  "fine_body = JDict [(''data'', JDict [(''ok'', JBool True)])]"

definition rejected_then_fine :: "nat \<Rightarrow> http_outcome" where
  "rejected_then_fine attempt =
     (if attempt = 0 then Replies 200 (Json rejection) else Replies 200 (Json fine_body))"

definition always_rejected :: "nat \<Rightarrow> http_outcome" where
  "always_rejected attempt = Replies 200 (Json rejection)"

section \<open>Job orchestrator: the polling loop (\_wait\_for\_completion\_with\_retry)\<close>

text \<open>
  The exceptions of one pass through the \<open>try\<close> block of the loop: the transport
  client's, \<open>Exception("Invalid response structure ...")\<close>, \<open>Exception("API error: m")\<close>,
  and the exceptions of reading the decoded document.
\<close>

datatype poll_error =
    RequestError request_error
  | InvalidStructure
  | ApiError jvalue
  | PollRaised py_exception

text \<open>
  Lines 573 to 581: from the decoded answer to the value of \<open>inferences\<close>.
\<close>

definition read_inferences :: "jvalue \<Rightarrow> poll_error + jvalue" where
  "read_inferences status_result =
     (case py_get status_result ''data'' (JDict []) of
        Inl x \<Rightarrow> Inl (PollRaised x)
      | Inr data \<Rightarrow>
          (case py_get data ''getInferencesById'' JNull of
             Inl x \<Rightarrow> Inl (PollRaised x)
           | Inr get_inferences_response \<Rightarrow>
               if \<not> py_truth get_inferences_response then Inl InvalidStructure
               else
                 (case py_in ''message'' get_inferences_response of
                    Inl x \<Rightarrow> Inl (PollRaised x)
                  | Inr True \<Rightarrow>
                      (case py_item get_inferences_response ''message'' of
                         Inl x \<Rightarrow> Inl (PollRaised x)
                       | Inr m \<Rightarrow> Inl (ApiError m))
                  | Inr False \<Rightarrow>
                      (case py_get get_inferences_response ''inferences'' (JList []) of
                         Inl x \<Rightarrow> Inl (PollRaised x)
                       | Inr inferences \<Rightarrow> Inr inferences))))"

text \<open>
  \<open>_download_result_files\<close> up to its own \<open>try\<close>: the two early returns, the
  exceptions raised before the \<open>try\<close> (among them the \<open>inference_data['id']\<close> of the
  default file name, evaluated whether or not the file has a name), and the \<open>try\<close>
  itself, which returns a text in every case: \<open>DownloadAttempted\<close> with the URL, the
  file entry and the id it works on.
\<close>

datatype download_report =
    NoFilesGenerated
  | NoDownloadUrl
  | DownloadAttempted jvalue jvalue jvalue

definition download_result_files :: "jvalue \<Rightarrow> py_exception + download_report" where
  "download_result_files inference_data =
     (case py_get inference_data ''files'' (JList []) of
        Inl x \<Rightarrow> Inl x
      | Inr files \<Rightarrow>
          if \<not> py_truth files then Inr NoFilesGenerated
          else
            (case py_first files of
               Inl x \<Rightarrow> Inl x
             | Inr file_info \<Rightarrow>
                 (case py_get file_info ''url'' JNull of
                    Inl x \<Rightarrow> Inl x
                  | Inr file_url \<Rightarrow>
                      (case py_item inference_data ''id'' of
                         Inl x \<Rightarrow> Inl x
                       | Inr inference_id \<Rightarrow>
                           if \<not> py_truth file_url then Inr NoDownloadUrl
                           else Inr (DownloadAttempted file_url file_info inference_id)))))"

text \<open>
  The texts the loop can return, by kind, with the numbers they mention. All but
  \<open>Inference not found\<close> begin with \<open>response_text\<close>, which is the first line
  followed by one \<open>Completed in t seconds\<close> line for each \<open>t\<close> of the list.
\<close>

datatype wait_result =
    Completed "nat list" download_report
  | GenerationFailed "nat list" nat
  | GenerationCancelled "nat list" nat
  | InferenceNotFound
  | StatusCheckFailed "nat list" nat poll_error
  | TimedOut "nat list" nat

text \<open>
  How one pass through the \<open>try\<close> block ends: an exception raised before the counter is
  reset at line 586 (\<open>PollFailure\<close>); the early \<open>return "Inference not found."\<close>; an
  exception raised after the reset (\<open>PollLateFailure\<close>, with whether the
  \<open>Completed\<close> line had been appended); or the status of the first inference.
\<close>

datatype poll_class =
    PollFailure poll_error
  | PollNotFound
  | PollLateFailure bool poll_error
  | PollComplete download_report
  | PollFailed
  | PollCancelled
  | PollPending

definition poll_outcome :: "request_error + jvalue \<Rightarrow> poll_class" where
  "poll_outcome r =
     (case r of
        Inl e \<Rightarrow> PollFailure (RequestError e)
      | Inr status_result \<Rightarrow>
          (case read_inferences status_result of
             Inl e \<Rightarrow> PollFailure e
           | Inr inferences \<Rightarrow>
               if \<not> py_truth inferences then PollNotFound
               else
                 (case py_first inferences of
                    Inl x \<Rightarrow> PollLateFailure False (PollRaised x)
                  | Inr inference_data \<Rightarrow>
                      (case py_get inference_data ''status'' (JText ''UNKNOWN'') of
                         Inl x \<Rightarrow> PollLateFailure False (PollRaised x)
                       | Inr current_status \<Rightarrow>
                           if current_status = JText ''COMPLETE'' then
                             (case download_result_files inference_data of
                                Inl x \<Rightarrow> PollLateFailure True (PollRaised x)
                              | Inr report \<Rightarrow> PollComplete report)
                           else if current_status = JText ''FAILED'' then PollFailed
                           else if current_status = JText ''CANCELLED'' then PollCancelled
                           else PollPending))))"

definition max_wait_time :: nat where
  "max_wait_time = 300"

definition check_interval :: nat where
  "check_interval = 5"

definition max_consecutive_failures :: nat where
  "max_consecutive_failures = 3"

text \<open>
  What a run of the loop leaves behind: the returned text, the value of \<open>elapsed_time\<close>
  at the return, the number of status polls made, and the total of the arguments of all
  \<open>asyncio.sleep\<close> calls, those of the transport client's back-off included.
\<close>

record wait_run =
  returned :: wait_result
  final_elapsed :: nat
  poll_count :: nat
  total_slept :: nat

text \<open>
  The \<open>while elapsed_time < max_wait_time\<close> loop. \<open>w elapsed_time attempt\<close> is what the
  POST of that attempt does during the poll made at that value of \<open>elapsed_time\<close>;
  \<open>response_text\<close> is the list of the \<open>Completed\<close> lines appended so far. An
  exception raised after line 586 finds the counter at 0 and leaves it at 1.
\<close>

function wait_loop ::
  "(nat \<Rightarrow> nat \<Rightarrow> http_outcome) \<Rightarrow> nat \<Rightarrow> nat \<Rightarrow> nat \<Rightarrow> nat \<Rightarrow> nat list \<Rightarrow> wait_run" where
  "wait_loop w elapsed_time consecutive_failures polls slept response_text =
     (if elapsed_time < max_wait_time then
        (let run = make_graphql_request (w elapsed_time);
             slept_now = slept + sum_list (sleeps run)
         in case poll_outcome (outcome run) of
              PollNotFound \<Rightarrow>
                \<lparr>returned = InferenceNotFound, final_elapsed = elapsed_time,
                  poll_count = polls + 1, total_slept = slept_now\<rparr>
            | PollComplete report \<Rightarrow>
                \<lparr>returned = Completed (response_text @ [elapsed_time]) report,
                  final_elapsed = elapsed_time, poll_count = polls + 1,
                  total_slept = slept_now\<rparr>
            | PollFailed \<Rightarrow>
                \<lparr>returned = GenerationFailed response_text elapsed_time,
                  final_elapsed = elapsed_time, poll_count = polls + 1,
                  total_slept = slept_now\<rparr>
            | PollCancelled \<Rightarrow>
                \<lparr>returned = GenerationCancelled response_text elapsed_time,
                  final_elapsed = elapsed_time, poll_count = polls + 1,
                  total_slept = slept_now\<rparr>
            | PollPending \<Rightarrow>
                wait_loop w (elapsed_time + check_interval) 0 (polls + 1)
                  (slept_now + check_interval) response_text
            | PollFailure e \<Rightarrow>
                if consecutive_failures + 1 \<ge> max_consecutive_failures then
                  \<lparr>returned = StatusCheckFailed response_text (consecutive_failures + 1) e,
                    final_elapsed = elapsed_time, poll_count = polls + 1,
                    total_slept = slept_now\<rparr>
                else wait_loop w (elapsed_time + check_interval) (consecutive_failures + 1)
                       (polls + 1) (slept_now + check_interval) response_text
            | PollLateFailure completed e \<Rightarrow>
                (let text_now = (if completed then response_text @ [elapsed_time]
                                 else response_text)
                 in if 0 + 1 \<ge> max_consecutive_failures then
                      \<lparr>returned = StatusCheckFailed text_now (0 + 1) e,
                        final_elapsed = elapsed_time, poll_count = polls + 1,
                        total_slept = slept_now\<rparr>
                    else wait_loop w (elapsed_time + check_interval) (0 + 1) (polls + 1)
                           (slept_now + check_interval) text_now))
      else \<lparr>returned = TimedOut response_text max_wait_time, final_elapsed = elapsed_time,
             poll_count = polls, total_slept = slept\<rparr>)"
  by pat_completeness auto
termination
  by (relation "measure (\<lambda>(w, elapsed_time, consecutive_failures, polls, slept, response_text).
        max_wait_time - elapsed_time)")
    (auto simp add: check_interval_def)

definition wait_for_completion_with_retry :: "(nat \<Rightarrow> nat \<Rightarrow> http_outcome) \<Rightarrow> wait_run" where
  "wait_for_completion_with_retry w = wait_loop w 0 0 0 0 []"

text \<open>The class of the poll made at a given value of \<open>elapsed_time\<close>.\<close>

definition poll_at :: "(nat \<Rightarrow> nat \<Rightarrow> http_outcome) \<Rightarrow> nat \<Rightarrow> poll_class" where
  "poll_at w t = poll_outcome (outcome (make_graphql_request (w t)))"


fun poll_pending :: "poll_class \<Rightarrow> bool" where
  "poll_pending PollPending = True"
| "poll_pending c = False"



text \<open>
  The seconds the transport client sleeps between its attempts during the poll made at
  \<open>t\<close>.
\<close>

definition backoff :: "(nat \<Rightarrow> nat \<Rightarrow> http_outcome) \<Rightarrow> nat \<Rightarrow> nat" where
  "backoff w t = sum_list (sleeps (make_graphql_request (w t)))"





text \<open>
  Decoded answers to the status query: a job in progress, and an empty list of inferences.
\<close>

definition status_body :: "jvalue \<Rightarrow> jvalue" where
  "status_body inferences =
     JDict [(''data'', JDict [(''getInferencesById'', JDict [(''inferences'', inferences)])])]"

definition in_progress :: http_outcome where
  "in_progress =
     Replies 200 (Json (status_body (JList [JDict [(''id'', JText ''inf1''),
        (''status'', JText ''IN_PROGRESS''), (''files'', JList [])]])))"

definition no_inferences :: http_outcome where
  "no_inferences = Replies 200 (Json (status_body (JList [])))"


definition forgetful_endpoint :: "nat \<Rightarrow> nat \<Rightarrow> http_outcome" where
  "forgetful_endpoint t attempt = (if t = 10 then no_inferences else in_progress)"


section \<open>File transfer: upload (\_upload\_file\_to\_layer)\<close>

text \<open>
  The local file system as the upload reads it: a path is missing, or a directory, or a
  regular file with its size in bytes and whether \<open>open(path, 'rb')\<close> succeeds.
  \<open>os.path.exists\<close> holds for everything but a missing path, \<open>os.path.isfile\<close> for
  regular files.
\<close>

datatype fs_entry = Missing | Directory | RegularFile nat bool

type_synonym filesystem = "string \<Rightarrow> fs_entry"

definition path_exists :: "filesystem \<Rightarrow> string \<Rightarrow> bool" where
  "path_exists fs path = (fs path \<noteq> Missing)"

definition path_isfile :: "filesystem \<Rightarrow> string \<Rightarrow> bool" where
  "path_isfile fs path = (case fs path of RegularFile n r \<Rightarrow> True | _ \<Rightarrow> False)"

definition path_readable :: "filesystem \<Rightarrow> string \<Rightarrow> bool" where
  "path_readable fs path = (case fs path of RegularFile n r \<Rightarrow> r | _ \<Rightarrow> False)"

definition mebibyte :: nat where
  "mebibyte = 1024 * 1024"

text \<open>\<open>os.path.basename\<close>: what follows the last slash.\<close>

definition basename :: "string \<Rightarrow> string" where
  "basename path = rev (takeWhile (\<lambda>c. c \<noteq> CHR ''/'') (rev path))"

text \<open>
  The network as one upload meets it: what the POSTs of the \<open>createUploadUrls\<close>
  request do, by attempt, and the outcome of the PUT of the file content.
\<close>

datatype put_outcome = PutRaises string | PutStatus nat

record upload_world =
  slot_request :: "nat \<Rightarrow> http_outcome"
  put_reply :: put_outcome

datatype net_call = GraphqlPost | HttpPut

text \<open>The exceptions of the upload, by the statement that raises them.\<close>

datatype upload_error =
    EmptyPath
  | FileNotFound string
  | NotAFile string
  | InvalidFilePath string
  | UploadUrlRequestFailed request_error
  | InvalidUploadResponse
  | UploadUrlCreationFailed jvalue
  | NoUploadUrls
  | InvalidUrlOrFileId
  | SlotRaised py_exception
  | ReadFailed string
  | PutFailed string
  | PutRejected nat

text \<open>
  The returned reference
  \<open>https://media.app.layer.ai/workspaces/{workspace_id}/files/{file_id}/{filename}\<close>,
  by its three parts; the file id is whatever the answer holds under \<open>fileId\<close>.
\<close>

datatype uploaded = MediaUrl string jvalue string

text \<open>
  The first \<open>try\<close> block after the request: from the decoded answer to the upload URL
  and the file id.
\<close>

definition read_upload_slot :: "jvalue \<Rightarrow> upload_error + jvalue \<times> jvalue" where
  "read_upload_slot request_result =
     (case py_get request_result ''data'' (JDict []) of
        Inl x \<Rightarrow> Inl (SlotRaised x)
      | Inr data \<Rightarrow>
          (case py_get data ''createUploadUrls'' JNull of
             Inl x \<Rightarrow> Inl (SlotRaised x)
           | Inr create_upload_response \<Rightarrow>
               if \<not> py_truth create_upload_response then Inl InvalidUploadResponse
               else
                 (case py_in ''message'' create_upload_response of
                    Inl x \<Rightarrow> Inl (SlotRaised x)
                  | Inr True \<Rightarrow>
                      (case py_item create_upload_response ''message'' of
                         Inl x \<Rightarrow> Inl (SlotRaised x)
                       | Inr m \<Rightarrow> Inl (UploadUrlCreationFailed m))
                  | Inr False \<Rightarrow>
                      (case py_get create_upload_response ''uploadUrls'' (JList []) of
                         Inl x \<Rightarrow> Inl (SlotRaised x)
                       | Inr upload_urls \<Rightarrow>
                           if \<not> py_truth upload_urls then Inl NoUploadUrls
                           else
                             (case py_first upload_urls of
                                Inl x \<Rightarrow> Inl (SlotRaised x)
                              | Inr upload_info \<Rightarrow>
                                  (case py_get upload_info ''url'' JNull of
                                     Inl x \<Rightarrow> Inl (SlotRaised x)
                                   | Inr upload_url \<Rightarrow>
                                       (case py_get upload_info ''fileId'' JNull of
                                          Inl x \<Rightarrow> Inl (SlotRaised x)
                                        | Inr file_id \<Rightarrow>
                                            if \<not> py_truth upload_url \<or> \<not> py_truth file_id
                                            then Inl InvalidUrlOrFileId
                                            else Inr (upload_url, file_id))))))))"

text \<open>
  The part of the upload after its validation, the same in both variants: the request for
  an upload slot, then reading the file and the PUT. The result comes with the network
  calls made, in order.
\<close>

definition upload_transfer ::
  "filesystem \<Rightarrow> string \<Rightarrow> upload_world \<Rightarrow> string \<Rightarrow> (upload_error + uploaded) \<times> net_call list" where
  "upload_transfer fs workspace_id world file_path =
     (let run = make_graphql_request (slot_request world);
          posts = replicate (attempts run) GraphqlPost
      in case outcome run of
           Inl e \<Rightarrow> (Inl (UploadUrlRequestFailed e), posts)
         | Inr request_result \<Rightarrow>
             (case read_upload_slot request_result of
                Inl e \<Rightarrow> (Inl e, posts)
              | Inr (upload_url, file_id) \<Rightarrow>
                  if \<not> path_readable fs file_path then (Inl (ReadFailed file_path), posts)
                  else (case put_reply world of
                          PutRaises m \<Rightarrow> (Inl (PutFailed m), posts @ [HttpPut])
                        | PutStatus status_code \<Rightarrow>
                            if status_code = 200 \<or> status_code = 201
                            then (Inr (MediaUrl workspace_id file_id (basename file_path)),
                                  posts @ [HttpPut])
                            else (Inl (PutRejected status_code), posts @ [HttpPut]))))"

text \<open>\<open>_upload_file_to_layer\<close> of production\_ready\_layer\_ai\_server.py.\<close>

definition upload_file_to_layer ::
  "filesystem \<Rightarrow> string \<Rightarrow> upload_world \<Rightarrow> string \<Rightarrow> (upload_error + uploaded) \<times> net_call list" where
  "upload_file_to_layer fs workspace_id world file_path =
     (if file_path = [] then (Inl EmptyPath, [])
      else if \<not> path_exists fs file_path then (Inl (FileNotFound file_path), [])
      else if \<not> path_isfile fs file_path then (Inl (NotAFile file_path), [])
      else upload_transfer fs workspace_id world file_path)"

text \<open>\<open>_upload_file_to_layer\<close> of critical\_bug\_fixes.py.\<close>

definition upload_file_to_layer_cbf ::
  "filesystem \<Rightarrow> string \<Rightarrow> upload_world \<Rightarrow> string \<Rightarrow> (upload_error + uploaded) \<times> net_call list" where
  "upload_file_to_layer_cbf fs workspace_id world file_path =
     (if file_path = [] \<or> \<not> path_exists fs file_path then (Inl (InvalidFilePath file_path), [])
      else upload_transfer fs workspace_id world file_path)"

text \<open>
  The validation the specification states: the path exists, is a regular file, is not
  empty and has at most 50 MiB.
\<close>

definition stated_validation :: "filesystem \<Rightarrow> string \<Rightarrow> bool" where
  "stated_validation fs path =
     (case fs path of
        RegularFile n r \<Rightarrow> 0 < n \<and> n \<le> 50 * mebibyte
      | _ \<Rightarrow> False)"

text \<open>A network on which everything succeeds, and a disk with an empty file and a huge one.\<close>

definition fine_world :: upload_world where
  "fine_world =
     \<lparr>slot_request = (\<lambda>attempt. Replies 200 (Json
         (JDict [(''data'', JDict [(''createUploadUrls'', JDict [(''uploadUrls'',
            JList [JDict [(''url'', JText ''https://storage.example/put''),
                          (''fileId'', JText ''f1'')]])])])]))),
       put_reply = PutStatus 200\<rparr>"

definition sample_disk :: filesystem where
  "sample_disk path =
     (if path = ''in/empty.png'' then RegularFile 0 True
      else if path = ''in/huge.png'' then RegularFile (60 * mebibyte) True
      else if path = ''in/a.png'' then RegularFile 1000 True
      else if path = ''in/c.png'' then RegularFile 2000 True
      else if path = ''in'' then Directory
      else Missing)"

section \<open>Job orchestrator: input files (\_create\_asset, \_handle\_input\_files)\<close>

text \<open>
  What the loop over \<open>input_files\<close> collects: the uploaded URLs, the failed paths with
  the reason (the text \<open>file not found\<close>, or the exception of the upload), what it
  passes to the logger, and the network calls made.
\<close>

datatype upload_failure = FileNotFoundText | UploadRaised upload_error

datatype log_entry =
    LogInfo string
  | LogError string upload_error
  | LogWarning "(string \<times> upload_failure) list"

record batch =
  file_urls :: "uploaded list"
  failed_uploads :: "(string \<times> upload_failure) list"
  log_lines :: "log_entry list"
  net_calls :: "net_call list"

text \<open>
  The loop \<open>for file_path in input_files\<close>, the same in both variants. \<open>upload\<close> is the
  variant's \<open>_upload_file_to_layer\<close>; \<open>worlds i\<close> is the network as the upload of the
  file at position \<open>i\<close> meets it.
\<close>

fun input_files_loop ::
  "(upload_world \<Rightarrow> string \<Rightarrow> (upload_error + uploaded) \<times> net_call list) \<Rightarrow> filesystem \<Rightarrow>
   (nat \<Rightarrow> upload_world) \<Rightarrow> nat \<Rightarrow> string list \<Rightarrow> batch \<Rightarrow> batch" where
  "input_files_loop upload fs worlds i [] b = b"
| "input_files_loop upload fs worlds i (file_path # rest) b =
     (if \<not> path_exists fs file_path then
        input_files_loop upload fs worlds (Suc i) rest
          (b\<lparr>failed_uploads := failed_uploads b @ [(file_path, FileNotFoundText)]\<rparr>)
      else
        (case upload (worlds i) file_path of
           (Inr file_url, calls) \<Rightarrow>
             input_files_loop upload fs worlds (Suc i) rest
               (b\<lparr>file_urls := file_urls b @ [file_url],
                  log_lines := log_lines b @ [LogInfo file_path],
                  net_calls := net_calls b @ calls\<rparr>)
         | (Inl e, calls) \<Rightarrow>
             input_files_loop upload fs worlds (Suc i) rest
               (b\<lparr>failed_uploads := failed_uploads b @ [(file_path, UploadRaised e)],
                  log_lines := log_lines b @ [LogError file_path e],
                  net_calls := net_calls b @ calls\<rparr>)))"

text \<open>
  How the handling of the input files ends for its caller: \<open>Abort\<close> with the aggregated
  failures (the production variant returns the error text as the result of
  \<open>_create_asset\<close>, the other raises it from \<open>_handle_input_files\<close>), before anything
  is submitted; or \<open>Proceed\<close> with the value stored under \<open>files\<close>, if any. Nothing
  else is handed on: \<open>failed_uploads\<close> and \<open>error_msg\<close> are not read again after the
  call of \<open>logger.warning\<close>. A run is this outcome together with the lines passed to the
  logger and the network calls made.
\<close>

datatype files_outcome =
    Abort "(string \<times> upload_failure) list"
  | Proceed "uploaded list option"

record files_run =
  handed_on :: files_outcome
  run_log :: "log_entry list"
  run_calls :: "net_call list"

definition handle_input_files ::
  "(upload_world \<Rightarrow> string \<Rightarrow> (upload_error + uploaded) \<times> net_call list) \<Rightarrow> filesystem \<Rightarrow>
   (nat \<Rightarrow> upload_world) \<Rightarrow> string list \<Rightarrow> files_run" where
  "handle_input_files upload fs worlds input_files =
     (if input_files = [] then \<lparr>handed_on = Proceed None, run_log = [], run_calls = []\<rparr>
      else
        (let b = input_files_loop upload fs worlds 0 input_files
                   \<lparr>file_urls = [], failed_uploads = [], log_lines = [], net_calls = []\<rparr>
         in if failed_uploads b \<noteq> [] then
              (if file_urls b = [] then
                 \<lparr>handed_on = Abort (failed_uploads b), run_log = log_lines b,
                   run_calls = net_calls b\<rparr>
               else
                 \<lparr>handed_on = Proceed (Some (file_urls b)),
                   run_log = log_lines b @ [LogWarning (failed_uploads b)],
                   run_calls = net_calls b\<rparr>)
            else
              \<lparr>handed_on = Proceed (if file_urls b \<noteq> [] then Some (file_urls b) else None),
                run_log = log_lines b, run_calls = net_calls b\<rparr>))"

text \<open>
  The outcome for one file, and the outcomes of a batch, file by file: what the
  specification calls collecting per-file success or failure.
\<close>

definition file_result ::
  "(upload_world \<Rightarrow> string \<Rightarrow> (upload_error + uploaded) \<times> net_call list) \<Rightarrow> filesystem \<Rightarrow>
   upload_world \<Rightarrow> string \<Rightarrow> (upload_failure + uploaded) \<times> net_call list" where
  "file_result upload fs world file_path =
     (if \<not> path_exists fs file_path then (Inl FileNotFoundText, [])
      else (case upload world file_path of
              (Inr file_url, calls) \<Rightarrow> (Inr file_url, calls)
            | (Inl e, calls) \<Rightarrow> (Inl (UploadRaised e), calls)))"

fun file_results ::
  "(upload_world \<Rightarrow> string \<Rightarrow> (upload_error + uploaded) \<times> net_call list) \<Rightarrow> filesystem \<Rightarrow>
   (nat \<Rightarrow> upload_world) \<Rightarrow> nat \<Rightarrow> string list
     \<Rightarrow> (string \<times> (upload_failure + uploaded) \<times> net_call list) list" where
  "file_results upload fs worlds i [] = []"
| "file_results upload fs worlds i (file_path # rest) =
     (file_path, file_result upload fs (worlds i) file_path)
       # file_results upload fs worlds (Suc i) rest"

fun successes ::
  "(string \<times> (upload_failure + uploaded) \<times> net_call list) list \<Rightarrow> uploaded list" where
  "successes [] = []"
| "successes ((path, Inr url, calls) # rs) = url # successes rs"
| "successes ((path, Inl f, calls) # rs) = successes rs"

fun failures ::
  "(string \<times> (upload_failure + uploaded) \<times> net_call list) list
     \<Rightarrow> (string \<times> upload_failure) list" where
  "failures [] = []"
| "failures ((path, Inr url, calls) # rs) = failures rs"
| "failures ((path, Inl f, calls) # rs) = (path, f) # failures rs"

definition calls_of ::
  "(string \<times> (upload_failure + uploaded) \<times> net_call list) list \<Rightarrow> net_call list" where
  "calls_of rs = concat (map (\<lambda>(path, r, calls). calls) rs)"

section \<open>Credential store: the two tiers (token\_manager.py)\<close>

text \<open>
  JSON values as the store reads them: a string, an object (the items of the decoded
  dict), or any other value, represented by its truth value.
\<close>

datatype json = JString string | JObject "(string \<times> json) list" | JOther bool

text \<open>
  The libraries the store calls, taken as parameters: \<open>cryptography.fernet.Fernet\<close>
  (\<open>key_ok k\<close>: the constructor \<open>Fernet(k)\<close> accepts the key; \<open>generate_key\<close> from
  the system's entropy; \<open>encrypt\<close> with the key, the time stamp and initialisation vector
  drawn for this call, and the plaintext; \<open>decrypt\<close>, \<open>None\<close> when it raises
  \<open>InvalidToken\<close>), \<open>json.dumps\<close> and \<open>json.loads\<close> (\<open>None\<close> when it raises),
  and the truncated SHA-256 digest stored as \<open>token_hash\<close>. \<open>str.encode\<close> and
  \<open>bytes.decode\<close> are the identity on the ASCII text that \<open>json.dumps\<close> produces.
\<close>

record library =
  key_ok :: "string \<Rightarrow> bool"
  generate_key :: "nat \<Rightarrow> string"
  encrypt :: "string \<Rightarrow> nat \<Rightarrow> string \<Rightarrow> string"
  decrypt :: "string \<Rightarrow> string \<Rightarrow> string option"
  dumps :: "json \<Rightarrow> string"
  loads :: "string \<Rightarrow> json option"
  token_hash :: "string \<Rightarrow> string"

text \<open>
  The contract of Fernet that the round trip rests on: decrypting, with the same valid
  key, what was encrypted gives the plaintext back, and a generated key is valid.
\<close>

definition library_contract :: "library \<Rightarrow> bool" where
  "library_contract L \<longleftrightarrow>
     (\<forall>k n m. key_ok L k \<longrightarrow> decrypt L k (encrypt L k n m) = Some m) \<and>
     (\<forall>seed. key_ok L (generate_key L seed))"

text \<open>
  The directory of the store: the token file and the key file, each absent, present but
  unreadable, or present with its content, and whether files can be written there.
\<close>

datatype file_state = NoFile | Unreadable | Content string

record store =
  token_file :: file_state
  key_file :: file_state
  writable :: bool

datatype store_error =
    FileError
  | InvalidKey
  | InvalidToken
  | JSONDecodeError
  | KeyError string
  | TypeError
  | AttributeError
  | InvalidTokenFormat

text \<open>\<open>SecureTokenManager._get_or_create_key\<close>.\<close>

definition get_or_create_key :: "library \<Rightarrow> nat \<Rightarrow> store \<Rightarrow> (store_error + string) \<times> store" where
  "get_or_create_key L seed st =
     (case key_file st of
        Content k \<Rightarrow> (Inr k, st)
      | Unreadable \<Rightarrow> (Inl FileError, st)
      | NoFile \<Rightarrow>
          (let key = generate_key L seed in
           if writable st then (Inr key, st\<lparr>key_file := Content key\<rparr>)
           else (Inl FileError, st)))"

text \<open>\<open>SecureTokenManager._encrypt_data\<close> and \<open>_decrypt_data\<close>.\<close>

definition encrypt_data ::
  "library \<Rightarrow> nat \<Rightarrow> nat \<Rightarrow> store \<Rightarrow> string \<Rightarrow> (store_error + string) \<times> store" where
  "encrypt_data L seed nonce st data =
     (case get_or_create_key L seed st of
        (Inl e, st') \<Rightarrow> (Inl e, st')
      | (Inr key, st') \<Rightarrow>
          if key_ok L key then (Inr (encrypt L key nonce data), st')
          else (Inl InvalidKey, st'))"

definition decrypt_data ::
  "library \<Rightarrow> nat \<Rightarrow> store \<Rightarrow> string \<Rightarrow> (store_error + string) \<times> store" where
  "decrypt_data L seed st encrypted_data =
     (case get_or_create_key L seed st of
        (Inl e, st') \<Rightarrow> (Inl e, st')
      | (Inr key, st') \<Rightarrow>
          if key_ok L key then
            (case decrypt L key encrypted_data of
               None \<Rightarrow> (Inl InvalidToken, st')
             | Some m \<Rightarrow> (Inr m, st'))
          else (Inl InvalidKey, st'))"

record credentials =
  api_token :: string
  workspace_id :: json

text \<open>\<open>token_data[key]\<close> on a decoded JSON value.\<close>

definition json_get :: "json \<Rightarrow> string \<Rightarrow> store_error + json" where
  "json_get j key =
     (case j of
        JObject items \<Rightarrow> (case map_of items key of None \<Rightarrow> Inl (KeyError key) | Some v \<Rightarrow> Inr v)
      | _ \<Rightarrow> Inl TypeError)"

text \<open>
  \<open>_validate_token\<close> applied to a decoded JSON value: a falsy value is rejected by
  \<open>not token\<close>, and any other value that is not a string raises on \<open>startswith\<close>.
\<close>

definition validate_json_token :: "json \<Rightarrow> store_error + bool" where
  "validate_json_token v =
     (case v of
        JString t \<Rightarrow> Inr (validate_token t)
      | JObject items \<Rightarrow> (if items = [] then Inr False else Inl AttributeError)
      | JOther truthy \<Rightarrow> (if truthy then Inl AttributeError else Inr False))"

definition json_string :: "json \<Rightarrow> string" where
  "json_string v = (case v of JString t \<Rightarrow> t | _ \<Rightarrow> [])"

text \<open>The body of the \<open>try\<close> of \<open>SecureTokenManager.get_token\<close>.\<close>

definition get_token_body ::
  "library \<Rightarrow> nat \<Rightarrow> store \<Rightarrow> (store_error + credentials option) \<times> store" where
  "get_token_body L seed st =
     (case token_file st of
        NoFile \<Rightarrow> (Inr None, st)
      | Unreadable \<Rightarrow> (Inl FileError, st)
      | Content encrypted_data \<Rightarrow>
          (case decrypt_data L seed st encrypted_data of
             (Inl e, st') \<Rightarrow> (Inl e, st')
           | (Inr decrypted_data, st') \<Rightarrow>
               (case loads L decrypted_data of
                  None \<Rightarrow> (Inl JSONDecodeError, st')
                | Some token_data \<Rightarrow>
                    (case json_get token_data ''api_token'' of
                       Inl e \<Rightarrow> (Inl e, st')
                     | Inr tok \<Rightarrow>
                         (case validate_json_token tok of
                            Inl e \<Rightarrow> (Inl e, st')
                          | Inr False \<Rightarrow> (Inr None, st')
                          | Inr True \<Rightarrow>
                              (case json_get token_data ''workspace_id'' of
                                 Inl e \<Rightarrow> (Inl e, st')
                               | Inr ws \<Rightarrow>
                                   (Inr (Some \<lparr>api_token = json_string tok,
                                                workspace_id = ws\<rparr>), st')))))))"

text \<open>
  \<open>SecureTokenManager.get_token\<close>: the \<open>except Exception\<close> turns every exception of
  the body into \<open>None\<close>.
\<close>

definition get_token :: "library \<Rightarrow> nat \<Rightarrow> store \<Rightarrow> credentials option \<times> store" where
  "get_token L seed st =
     (case get_token_body L seed st of
        (Inl e, st') \<Rightarrow> (None, st')
      | (Inr r, st') \<Rightarrow> (r, st'))"

text \<open>\<open>SecureTokenManager.store_token\<close>; the result is the returned flag.\<close>

definition token_record :: "library \<Rightarrow> string \<Rightarrow> string \<Rightarrow> json" where
  "token_record L token ws =
     JObject [(''api_token'', JString token), (''workspace_id'', JString ws),
              (''token_hash'', JString (token_hash L token))]"

definition store_token ::
  "library \<Rightarrow> nat \<Rightarrow> nat \<Rightarrow> store \<Rightarrow> string \<Rightarrow> string \<Rightarrow> bool \<times> store" where
  "store_token L seed nonce st token ws =
     (if \<not> validate_token token then (False, st)
      else
        (let token_data = token_record L token ws
         in case encrypt_data L seed nonce st (dumps L token_data) of
              (Inl e, st') \<Rightarrow> (False, st')
            | (Inr encrypted_data, st') \<Rightarrow>
                if writable st' then (True, st'\<lparr>token_file := Content encrypted_data\<rparr>)
                else (False, st')))"

text \<open>
  \<open>str.strip()\<close>: the white space of Python among the first 256 code points.
\<close>

definition is_space :: "char \<Rightarrow> bool" where
  "is_space c \<longleftrightarrow>
     c \<in> {CHR 0x09, CHR 0x0A, CHR 0x0B, CHR 0x0C, CHR 0x0D, CHR 0x1C, CHR 0x1D, CHR 0x1E,
          CHR 0x1F, CHR 0x20, CHR 0x85, CHR 0xA0}"

definition strip :: "string \<Rightarrow> string" where
  "strip s = rev (dropWhile is_space (rev (dropWhile is_space s)))"

text \<open>
  The canonical shape of a workspace id: five groups of 8, 4, 4, 4 and 12 lower-case
  hexadecimal digits, separated by hyphens. \<open>re_match_uuid\<close> is the \<open>re.match\<close> of
  \<open>EnvironmentTokenManager.get_token\<close> with that pattern between \<open>^\<close> and \<open>$\<close>,
  which, as above, also accepts one final newline.
\<close>

definition hex_char :: "char \<Rightarrow> bool" where
  "hex_char c \<longleftrightarrow> c \<in> set ''0123456789abcdef''"

definition hex_group :: "nat \<Rightarrow> string \<Rightarrow> bool" where
  "hex_group n g \<longleftrightarrow> length g = n \<and> list_all hex_char g"

definition uuid_shape :: "string \<Rightarrow> bool" where
  "uuid_shape s =
     (case split_on CHR ''-'' s of
        [a, b, c, d, e] \<Rightarrow>
          hex_group 8 a \<and> hex_group 4 b \<and> hex_group 4 c \<and> hex_group 4 d \<and> hex_group 12 e
      | _ \<Rightarrow> False)"

definition re_match_uuid :: "string \<Rightarrow> bool" where
  "re_match_uuid s \<longleftrightarrow> uuid_shape s \<or> (s \<noteq> [] \<and> last s = newline \<and> uuid_shape (butlast s))"

text \<open>The two environment variables; \<open>None\<close> is an unset variable.\<close>

record environment =
  LAYER_API_TOKEN :: "string option"
  LAYER_WORKSPACE_ID :: "string option"

text \<open>\<open>EnvironmentTokenManager.get_token\<close>.\<close>

definition env_get_token :: "environment \<Rightarrow> credentials option" where
  "env_get_token env =
     (let token = strip (get_or (LAYER_API_TOKEN env) []);
          ws = strip (get_or (LAYER_WORKSPACE_ID env) [])
      in if token = [] \<or> ws = [] then None
         else if \<not> prefix ''pat_'' token \<or> length token < 50 then None
         else if \<not> re_match_uuid ws then None
         else Some \<lparr>api_token = token, workspace_id = JString ws\<rparr>)"

text \<open>\<open>LayerTokenManager.get_credentials\<close>.\<close>

definition get_credentials ::
  "library \<Rightarrow> nat \<Rightarrow> store \<Rightarrow> environment \<Rightarrow> credentials option \<times> store" where
  "get_credentials L seed st env =
     (case get_token L seed st of
        (Some cr, st') \<Rightarrow> (Some cr, st')
      | (None, st') \<Rightarrow> (env_get_token env, st'))"

text \<open>
  A stand-in for the libraries that meets the contract (the key is prepended to the
  plaintext; the JSON text is the two string fields with a bar between), an empty store,
  and an environment whose token has the prefix and fifty characters, none of them after
  the prefix in the allowed set.
\<close>

definition toy_dumps :: "json \<Rightarrow> string" where
  "toy_dumps j = json_string (case json_get j ''api_token'' of Inr v \<Rightarrow> v | Inl e \<Rightarrow> JOther False)
     @ ''|'' @ json_string (case json_get j ''workspace_id'' of Inr v \<Rightarrow> v | Inl e \<Rightarrow> JOther False)"

definition toy_loads :: "string \<Rightarrow> json option" where
  "toy_loads s =
     (case split_on CHR ''|'' s of
        [t, w] \<Rightarrow> Some (JObject [(''api_token'', JString t), (''workspace_id'', JString w)])
      | _ \<Rightarrow> None)"

definition toy_library :: library where
  "toy_library =
     \<lparr>key_ok = (\<lambda>k. length k = 4),
       generate_key = (\<lambda>seed. ''key0''),
       encrypt = (\<lambda>k n m. k @ m),
       decrypt = (\<lambda>k c. if take 4 c = k then Some (drop 4 c) else None),
       dumps = toy_dumps,
       loads = toy_loads,
       token_hash = (\<lambda>t. [])\<rparr>"

definition empty_store :: store where
  "empty_store = \<lparr>token_file = NoFile, key_file = NoFile, writable = True\<rparr>"

definition odd_environment :: environment where
  "odd_environment =
     \<lparr>LAYER_API_TOKEN = Some (''pat_'' @ replicate 46 CHR ''!''),
       LAYER_WORKSPACE_ID = Some ''01234567-89ab-cdef-0123-456789abcdef''\<rparr>"

section \<open>Token shape: results\<close>

lemma token_char_newline: "\<not> token_char newline"
  by (simp add: token_char_def newline_def)

lemma re_match_token_iff:
  "re_match_token t \<longleftrightarrow>
     prefix ''pat_'' t \<and>
     (\<exists>body. body \<noteq> [] \<and> list_all token_char body \<and>
        (drop 4 t = body \<or> drop 4 t = body @ [newline]))"
proof
  assume m: "re_match_token t"
  let ?rest = "drop 4 t"
  let ?body = "takeWhile token_char ?rest"
  let ?after = "dropWhile token_char ?rest"
  from m have p: "prefix ''pat_'' t" and b: "?body \<noteq> []"
    and a: "?after = [] \<or> ?after = [newline]"
    by (simp_all add: re_match_token_def Let_def)
  have all: "list_all token_char ?body"
    by (simp add: list_all_iff) (meson set_takeWhileD)
  have split: "?rest = ?body @ ?after" by simp
  from a split have "?rest = ?body \<or> ?rest = ?body @ [newline]"
    by (metis append_Nil2)
  with p b all show "prefix ''pat_'' t \<and>
     (\<exists>body. body \<noteq> [] \<and> list_all token_char body \<and>
        (drop 4 t = body \<or> drop 4 t = body @ [newline]))"
    by blast
next
  assume r: "prefix ''pat_'' t \<and>
     (\<exists>body. body \<noteq> [] \<and> list_all token_char body \<and>
        (drop 4 t = body \<or> drop 4 t = body @ [newline]))"
  then obtain body where p: "prefix ''pat_'' t" and b: "body \<noteq> []"
    and all: "list_all token_char body"
    and d: "drop 4 t = body \<or> drop 4 t = body @ [newline]"
    by blast
  have allset: "\<forall>x\<in>set body. token_char x"
    using all by (simp add: list_all_iff)
  from d show "re_match_token t"
  proof
    assume e: "drop 4 t = body"
    have "takeWhile token_char (drop 4 t) = body" "dropWhile token_char (drop 4 t) = []"
      using allset e by simp_all
    with p b show ?thesis by (simp add: re_match_token_def Let_def)
  next
    assume e: "drop 4 t = body @ [newline]"
    have "takeWhile token_char (drop 4 t) = body"
      using allset token_char_newline e by (simp add: takeWhile_append2)
    moreover have "dropWhile token_char (drop 4 t) = [newline]"
      using allset token_char_newline e by (simp add: dropWhile_append2)
    ultimately show ?thesis using p b by (simp add: re_match_token_def Let_def)
  qed
qed

text \<open>
  What \<open>_validate_token\<close> accepts, exactly: the stated shape, or the stated shape with
  one newline appended (the total length, newline included, still within [50,200]).
\<close>

lemma validate_token_iff:
  "validate_token t \<longleftrightarrow>
     prefix ''pat_'' t \<and> 50 \<le> length t \<and> length t \<le> 200 \<and>
     (\<exists>body. body \<noteq> [] \<and> list_all token_char body \<and>
        (drop 4 t = body \<or> drop 4 t = body @ [newline]))"
proof -
  have "validate_token t \<longleftrightarrow>
      t \<noteq> [] \<and> prefix ''pat_'' t \<and> 50 \<le> length t \<and> length t \<le> 200 \<and> re_match_token t"
    by (auto simp add: validate_token_def)
  also have "\<dots> \<longleftrightarrow> prefix ''pat_'' t \<and> 50 \<le> length t \<and> length t \<le> 200 \<and> re_match_token t"
    by auto
  finally show ?thesis
    by (simp only: re_match_token_iff) blast
qed

lemma token_shape_accepted: "token_shape t \<Longrightarrow> validate_token t"
proof -
  assume s: "token_shape t"
  then have "length (drop 4 t) \<noteq> 0" by (simp add: token_shape_def)
  then have "drop 4 t \<noteq> []" by (simp del: length_drop drop_eq_Nil)
  with s show ?thesis
    unfolding validate_token_iff token_shape_def by blast
qed

text \<open>
  Claim C4. The specification says that \<open>_validate_token(t)\<close> is true if and only if \<open>t\<close>
  starts with \<open>pat_\<close>, has a length between 50 and 200, and has only letters, digits,
  hyphens and underscores after the prefix. On the token made of \<open>pat_\<close>, forty-five
  letters \<open>a\<close> and a final newline (fifty characters) the function answers true, although
  the last character is outside the allowed set: the pattern's \<open>$\<close> also matches
  before a final newline.
\<close>

theorem validate_token_accepts_trailing_newline:
  "validate_token (''pat_'' @ replicate 45 CHR ''a'' @ [newline]) \<and>
   \<not> token_shape (''pat_'' @ replicate 45 CHR ''a'' @ [newline]) \<and>
   length (''pat_'' @ replicate 45 CHR ''a'' @ [newline]) = 50"
proof -
  let ?t = "''pat_'' @ replicate 45 CHR ''a'' @ [newline]"
  have d: "drop 4 ?t = replicate 45 CHR ''a'' @ [newline]" by simp
  have a: "list_all token_char (replicate 45 CHR ''a'')"
    by (simp add: list_all_iff token_char_def)
  have "validate_token ?t"
    unfolding validate_token_iff
  proof (intro conjI exI [of _ "replicate 45 CHR ''a''"])
    show "prefix ''pat_'' ?t" by simp
    show "50 \<le> length ?t" by simp
    show "length ?t \<le> 200" by simp
    show "replicate 45 CHR ''a'' \<noteq> []" by simp
    show "list_all token_char (replicate 45 CHR ''a'')" by (rule a)
    show "drop 4 ?t = replicate 45 CHR ''a'' \<or> drop 4 ?t = replicate 45 CHR ''a'' @ [newline]"
      using d by simp
  qed
  moreover have "\<not> token_shape ?t"
    using token_char_newline by (simp add: token_shape_def d)
  ultimately show ?thesis by simp
qed

section \<open>Generation parameters: results\<close>

lemma py_clamp_in_range:
  "lo \<le> hi \<Longrightarrow> in_range lo hi (py_max (PFloat (Fin lo)) (py_min (PFloat (Fin hi)) x))"
proof (cases "num_val x")
  case (Fin r)
  assume "lo \<le> hi"
  with Fin show ?thesis
    by (cases x) (auto simp add: in_range_def py_max_def py_min_def num_lt_def)
next
  case PosInf
  assume "lo \<le> hi"
  with PosInf show ?thesis
    by (cases x) (auto simp add: in_range_def py_max_def py_min_def num_lt_def)
next
  case NegInf
  assume "lo \<le> hi"
  with NegInf show ?thesis
    by (cases x) (auto simp add: in_range_def py_max_def py_min_def num_lt_def)
next
  case NaN
  assume "lo \<le> hi"
  with NaN show ?thesis
    by (cases x) (auto simp add: in_range_def py_max_def py_min_def num_lt_def)
qed

lemma py_float_error: "py_float x = Inl e \<Longrightarrow> e = OverflowError"
  by (cases x) (auto split: if_splits)

lemma clamp_unit_error: "clamp_unit v = Inl e \<Longrightarrow> e = OverflowError"
  by (auto simp add: clamp_unit_def split: option.splits sum.splits dest: py_float_error)

lemma clamp_unit_in_range: "clamp_unit v = Inr c \<Longrightarrow> opt_in_range 0 1 c"
  using py_clamp_in_range [of 0 1]
  by (auto simp add: clamp_unit_def opt_in_range_def split: option.splits sum.splits)

lemma clamp_unit_fails_iff:
  "(\<exists>e. clamp_unit v = Inl e) \<longleftrightarrow> (\<exists>i. v = Some (PInt i) \<and> \<bar>i\<bar> \<ge> float_overflow_bound)"
proof (cases v)
  case None
  then show ?thesis by (simp add: clamp_unit_def)
next
  case (Some x)
  then show ?thesis by (cases x) (auto simp add: clamp_unit_def)
qed

lemma py_clamp_clamped:
  "lo \<le> hi \<Longrightarrow> py_max (PFloat (Fin lo)) (py_min (PFloat (Fin hi)) x) = clamped_num lo hi x"
proof (cases "num_val x")
  case (Fin r)
  assume "lo \<le> hi"
  with Fin show ?thesis
    by (cases x) (auto simp add: clamped_num_def py_max_def py_min_def num_lt_def)
next
  case PosInf
  assume "lo \<le> hi"
  with PosInf show ?thesis
    by (cases x) (auto simp add: clamped_num_def py_max_def py_min_def num_lt_def)
next
  case NegInf
  assume "lo \<le> hi"
  with NegInf show ?thesis
    by (cases x) (auto simp add: clamped_num_def py_max_def py_min_def num_lt_def)
next
  case NaN
  assume "lo \<le> hi"
  with NaN show ?thesis
    by (cases x) (auto simp add: clamped_num_def py_max_def py_min_def num_lt_def)
qed

lemma max_min_clamped: "lo \<le> hi \<Longrightarrow> max lo (min hi x) = clamped lo hi x"
  by (simp add: clamped_def max_def min_def)

lemma clamp_unit_clamped:
  "clamp_unit v = Inr c \<Longrightarrow>
   c = map_option (\<lambda>x. clamped_num 0 1 (PFloat (num_val x))) v"
proof (cases v)
  case None
  assume "clamp_unit v = Inr c"
  with None show ?thesis by (simp add: clamp_unit_def)
next
  case (Some x)
  assume a: "clamp_unit v = Inr c"
  have f: "py_float x = Inr f \<Longrightarrow> f = PFloat (num_val x)" for f
    by (cases x) (auto split: if_splits)
  from a Some f show ?thesis
    using py_clamp_clamped [of 0 1]
    by (auto simp add: clamp_unit_def split: sum.splits)
qed

text \<open>
  Claim C9. Whatever the caller passes, the parameters that \<open>_create_asset\<close> builds for
  submission are the caller's values clamped (the default where the caller gives none):
  width and height into [64,2048], steps into [1,100], the guidance scale into [1.0,20.0],
  and creativity and resemblance, when supplied, into [0.0,1.0], after \<open>float()\<close>. So
  every submitted value lies in its range, a value already in range is submitted with the
  same numeric value, and a width of 10000 is submitted as exactly 2048. Building the
  parameters fails (and then nothing is submitted) only when creativity or resemblance is
  an integer too large for \<open>float()\<close>.
\<close>

theorem create_asset_parameters_clamped:
  "(case create_asset_parameters a of
      Inr p \<Rightarrow>
        width p = clamped 64 2048 (get_or (arg_width a) 512) \<and>
        height p = clamped 64 2048 (get_or (arg_height a) 512) \<and>
        numInferenceSteps p = clamped 1 100 (get_or (arg_steps a) 20) \<and>
        guidanceScale p = clamped_num 1 20 (get_or (arg_guidance_scale a) (PFloat (Fin 7.5))) \<and>
        creativity p
          = map_option (\<lambda>x. clamped_num 0 1 (PFloat (num_val x))) (arg_creativity a) \<and>
        resemblance p
          = map_option (\<lambda>x. clamped_num 0 1 (PFloat (num_val x))) (arg_resemblance a) \<and>
        64 \<le> width p \<and> width p \<le> 2048 \<and> 64 \<le> height p \<and> height p \<le> 2048 \<and>
        1 \<le> numInferenceSteps p \<and> numInferenceSteps p \<le> 100 \<and>
        in_range 1 20 (guidanceScale p) \<and>
        opt_in_range 0 1 (creativity p) \<and> opt_in_range 0 1 (resemblance p) \<and>
        (\<forall>x. arg_width a = Some x \<and> 64 \<le> x \<and> x \<le> 2048 \<longrightarrow> width p = x) \<and>
        (\<forall>x. arg_height a = Some x \<and> 64 \<le> x \<and> x \<le> 2048 \<longrightarrow> height p = x) \<and>
        (\<forall>x. arg_steps a = Some x \<and> 1 \<le> x \<and> x \<le> 100 \<longrightarrow> numInferenceSteps p = x) \<and>
        (\<forall>x. arg_guidance_scale a = Some x \<and> in_range 1 20 x \<longrightarrow>
           num_val (guidanceScale p) = num_val x) \<and>
        (\<forall>r. arg_creativity a = Some (PFloat (Fin r)) \<and> 0 \<le> r \<and> r \<le> 1 \<longrightarrow>
           creativity p = Some (PFloat (Fin r))) \<and>
        (\<forall>r. arg_resemblance a = Some (PFloat (Fin r)) \<and> 0 \<le> r \<and> r \<le> 1 \<longrightarrow>
           resemblance p = Some (PFloat (Fin r))) \<and>
        (arg_width a = Some 10000 \<longrightarrow> width p = 2048) \<and>
        (creativity p = None \<longleftrightarrow> arg_creativity a = None) \<and>
        (resemblance p = None \<longleftrightarrow> arg_resemblance a = None)
    | Inl e \<Rightarrow>
        e = OverflowError \<and>
        (\<exists>i. \<bar>i\<bar> \<ge> float_overflow_bound \<and>
           (arg_creativity a = Some (PInt i) \<or> arg_resemblance a = Some (PInt i))))"
proof (cases "create_asset_parameters a")
  case (Inl e)
  then have "(\<exists>e. clamp_unit (arg_creativity a) = Inl e) \<or>
             (\<exists>e. clamp_unit (arg_resemblance a) = Inl e)"
    by (auto simp add: create_asset_parameters_def Let_def split: sum.splits)
  then have ex: "\<exists>i. \<bar>i\<bar> \<ge> float_overflow_bound \<and>
           (arg_creativity a = Some (PInt i) \<or> arg_resemblance a = Some (PInt i))"
    unfolding clamp_unit_fails_iff by blast
  have "e = OverflowError"
    using Inl
    by (auto simp add: create_asset_parameters_def Let_def
        split: sum.splits dest: clamp_unit_error)
  with ex Inl show ?thesis by simp
next
  case (Inr p)
  then obtain c r where c: "clamp_unit (arg_creativity a) = Inr c"
    and r: "clamp_unit (arg_resemblance a) = Inr r"
    and p: "p = \<lparr>width = max 64 (min 2048 (get_or (arg_width a) 512)),
              height = max 64 (min 2048 (get_or (arg_height a) 512)),
              numInferenceSteps = max 1 (min 100 (get_or (arg_steps a) 20)),
              guidanceScale = py_max (PFloat (Fin 1))
                (py_min (PFloat (Fin 20)) (get_or (arg_guidance_scale a) (PFloat (Fin 7.5)))),
              creativity = c, resemblance = r\<rparr>"
    by (auto simp add: create_asset_parameters_def Let_def split: sum.splits)
  have v: "width p = clamped 64 2048 (get_or (arg_width a) 512)"
    "height p = clamped 64 2048 (get_or (arg_height a) 512)"
    "numInferenceSteps p = clamped 1 100 (get_or (arg_steps a) 20)"
    by (simp_all add: p max_min_clamped)
  have vg: "guidanceScale p
      = clamped_num 1 20 (get_or (arg_guidance_scale a) (PFloat (Fin 7.5)))"
    using py_clamp_clamped [of 1 20] by (simp add: p)
  have vc: "creativity p
      = map_option (\<lambda>x. clamped_num 0 1 (PFloat (num_val x))) (arg_creativity a)"
    "resemblance p
      = map_option (\<lambda>x. clamped_num 0 1 (PFloat (num_val x))) (arg_resemblance a)"
    using clamp_unit_clamped [OF c] clamp_unit_clamped [OF r] by (simp_all add: p)
  have g: "in_range 1 20 (guidanceScale p)"
    using py_clamp_in_range [of 1 20] by (simp add: p)
  have cr: "opt_in_range 0 1 (creativity p)" "opt_in_range 0 1 (resemblance p)"
    using c r by (simp_all add: p clamp_unit_in_range)
  have k: "\<forall>x. arg_width a = Some x \<and> 64 \<le> x \<and> x \<le> 2048 \<longrightarrow> width p = x"
    "\<forall>x. arg_height a = Some x \<and> 64 \<le> x \<and> x \<le> 2048 \<longrightarrow> height p = x"
    "\<forall>x. arg_steps a = Some x \<and> 1 \<le> x \<and> x \<le> 100 \<longrightarrow> numInferenceSteps p = x"
    unfolding v by (simp_all add: get_or_def clamped_def)
  have kg: "\<forall>x. arg_guidance_scale a = Some x \<and> in_range 1 20 x \<longrightarrow>
      num_val (guidanceScale p) = num_val x"
    unfolding vg
    by (auto simp add: get_or_def clamped_num_def in_range_def split: pyfloat.splits)
  have kc: "\<forall>r. arg_creativity a = Some (PFloat (Fin r)) \<and> 0 \<le> r \<and> r \<le> 1 \<longrightarrow>
           creativity p = Some (PFloat (Fin r))"
    "\<forall>r. arg_resemblance a = Some (PFloat (Fin r)) \<and> 0 \<le> r \<and> r \<le> 1 \<longrightarrow>
           resemblance p = Some (PFloat (Fin r))"
    unfolding vc by (auto simp add: clamped_num_def)
  have w: "arg_width a = Some 10000 \<longrightarrow> width p = 2048"
    by (simp add: p get_or_def)
  have n: "(creativity p = None \<longleftrightarrow> arg_creativity a = None)"
    "(resemblance p = None \<longleftrightarrow> arg_resemblance a = None)"
    unfolding vc by simp_all
  have i: "64 \<le> width p \<and> width p \<le> 2048 \<and> 64 \<le> height p \<and> height p \<le> 2048 \<and>
        1 \<le> numInferenceSteps p \<and> numInferenceSteps p \<le> 100"
    by (simp add: p)
  from v vg vc g cr k kg kc w n i Inr show ?thesis by simp
qed

theorem create_asset_parameters_clamped_witness:
  "create_asset_parameters width_10000 =
     Inr \<lparr>width = 2048, height = 512, numInferenceSteps = 20, guidanceScale = PFloat (Fin 7.5),
          creativity = Some (PFloat (Fin 1)), resemblance = Some (PFloat (Fin 1))\<rparr> \<and>
   arg_width width_10000 = Some 10000 \<and>
   clamped 64 2048 (get_or (arg_width width_10000) 512) = 2048"
proof -
  have e: "create_asset_parameters width_10000 =
     Inr \<lparr>width = 2048, height = 512, numInferenceSteps = 20, guidanceScale = PFloat (Fin 7.5),
          creativity = Some (PFloat (Fin 1)), resemblance = Some (PFloat (Fin 1))\<rparr>"
    by (simp add: create_asset_parameters_def width_10000_def get_or_def clamp_unit_def
        py_max_def py_min_def num_lt_def float_overflow_bound_def)
  have "arg_width width_10000 = Some 10000" by (simp add: width_10000_def)
  with e create_asset_parameters_clamped [of width_10000] show ?thesis by simp
qed

section \<open>Extension resolution: results\<close>

lemma determine_file_extension_cases:
  "determine_file_extension ct fn =
     (if has_word ''image'' ct then
        (if has_word ''png'' ct then ''.png''
         else if has_word ''jpeg'' ct \<or> has_word ''jpg'' ct then ''.jpg''
         else if has_word ''gif'' ct then ''.gif''
         else if has_word ''svg'' ct then ''.svg''
         else if has_word ''webp'' ct then ''.webp''
         else ''.png'')
      else if has_word ''video'' ct then
        (if has_word ''mp4'' ct then ''.mp4''
         else if has_word ''webm'' ct then ''.webm''
         else ''.mp4'')
      else if has_word ''audio'' ct then
        (if has_word ''wav'' ct then ''.wav''
         else if has_word ''mp3'' ct then ''.mp3''
         else ''.wav'')
      else if has_word ''model'' ct \<or> has_word ''application/octet-stream'' ct then ''.glb''
      else if path_suffix fn \<noteq> [] then path_suffix fn else ''.png'')"
  by (simp add: determine_file_extension_def has_word_def Let_def)

lemma determine_file_extension_cbf_cases:
  "determine_file_extension_cbf ct fn =
     (if has_word ''image'' ct then
        (if has_word ''png'' ct then ''.png''
         else if has_word ''jpeg'' ct \<or> has_word ''jpg'' ct then ''.jpg''
         else if has_word ''gif'' ct then ''.gif''
         else if has_word ''svg'' ct then ''.svg''
         else if has_word ''webp'' ct then ''.webp''
         else ''.png'')
      else if has_word ''video'' ct then
        (if has_word ''mp4'' ct then ''.mp4''
         else if has_word ''webm'' ct then ''.webm''
         else if has_word ''avi'' ct then ''.avi''
         else ''.mp4'')
      else if has_word ''audio'' ct then
        (if has_word ''wav'' ct then ''.wav''
         else if has_word ''mp3'' ct then ''.mp3''
         else if has_word ''ogg'' ct then ''.ogg''
         else ''.wav'')
      else if has_word ''model'' ct \<or> has_word ''application/octet-stream'' ct then ''.glb''
      else if path_suffix fn \<noteq> [] then path_suffix fn else ''.png'')"
  by (simp add: determine_file_extension_cbf_def has_word_def Let_def)

lemmas family_defs =
  image_family_def video_family_def audio_family_def model_family_def no_family_def

lemma resolves_by_table_production: "resolves_by_table determine_file_extension"
  unfolding resolves_by_table_def
proof (intro allI conjI impI)
  fix ct fn
  show "determine_file_extension ct fn =
        (if has_word ''png'' ct then ''.png''
         else if has_word ''jpeg'' ct \<or> has_word ''jpg'' ct then ''.jpg''
         else if has_word ''gif'' ct then ''.gif''
         else if has_word ''svg'' ct then ''.svg''
         else if has_word ''webp'' ct then ''.webp''
         else ''.png'')" if "image_family ct"
    using that by (simp add: determine_file_extension_cases family_defs)
  show "determine_file_extension ct fn =
        (if has_word ''mp4'' ct then ''.mp4''
         else if has_word ''webm'' ct then ''.webm'' else ''.mp4'')"
    if "video_family ct \<and> (has_word ''mp4'' ct \<or> has_word ''webm'' ct \<or> \<not> has_word ''avi'' ct)"
    using that by (simp add: determine_file_extension_cases family_defs)
  show "determine_file_extension ct fn =
        (if has_word ''wav'' ct then ''.wav''
         else if has_word ''mp3'' ct then ''.mp3'' else ''.wav'')"
    if "audio_family ct \<and> (has_word ''wav'' ct \<or> has_word ''mp3'' ct \<or> \<not> has_word ''ogg'' ct)"
    using that by (simp add: determine_file_extension_cases family_defs)
  show "determine_file_extension ct fn = ''.glb''" if "model_family ct"
    using that by (simp add: determine_file_extension_cases family_defs)
  show "determine_file_extension ct fn =
        (if path_suffix fn \<noteq> [] then path_suffix fn else ''.png'')" if "no_family ct"
    using that by (simp add: determine_file_extension_cases family_defs)
qed

lemma resolves_by_table_cbf: "resolves_by_table determine_file_extension_cbf"
  unfolding resolves_by_table_def
proof (intro allI conjI impI)
  fix ct fn
  show "determine_file_extension_cbf ct fn =
        (if has_word ''png'' ct then ''.png''
         else if has_word ''jpeg'' ct \<or> has_word ''jpg'' ct then ''.jpg''
         else if has_word ''gif'' ct then ''.gif''
         else if has_word ''svg'' ct then ''.svg''
         else if has_word ''webp'' ct then ''.webp''
         else ''.png'')" if "image_family ct"
    using that by (simp add: determine_file_extension_cbf_cases family_defs)
  show "determine_file_extension_cbf ct fn =
        (if has_word ''mp4'' ct then ''.mp4''
         else if has_word ''webm'' ct then ''.webm'' else ''.mp4'')"
    if "video_family ct \<and> (has_word ''mp4'' ct \<or> has_word ''webm'' ct \<or> \<not> has_word ''avi'' ct)"
    using that by (auto simp add: determine_file_extension_cbf_cases family_defs)
  show "determine_file_extension_cbf ct fn =
        (if has_word ''wav'' ct then ''.wav''
         else if has_word ''mp3'' ct then ''.mp3'' else ''.wav'')"
    if "audio_family ct \<and> (has_word ''wav'' ct \<or> has_word ''mp3'' ct \<or> \<not> has_word ''ogg'' ct)"
    using that by (auto simp add: determine_file_extension_cbf_cases family_defs)
  show "determine_file_extension_cbf ct fn = ''.glb''" if "model_family ct"
    using that by (simp add: determine_file_extension_cbf_cases family_defs)
  show "determine_file_extension_cbf ct fn =
        (if path_suffix fn \<noteq> [] then path_suffix fn else ''.png'')" if "no_family ct"
    using that by (simp add: determine_file_extension_cbf_cases family_defs)
qed

lemma table_words:
  "has_word ''image'' ''image/png''" "has_word ''png'' ''image/png''"
  "has_word ''image'' ''image/jpeg''" "\<not> has_word ''png'' ''image/jpeg''"
  "has_word ''jpeg'' ''image/jpeg''"
  "has_word ''image'' ''image/jpg''" "\<not> has_word ''png'' ''image/jpg''"
  "has_word ''jpg'' ''image/jpg''"
  "has_word ''image'' ''image/gif''" "\<not> has_word ''png'' ''image/gif''"
  "\<not> has_word ''jpeg'' ''image/gif''" "\<not> has_word ''jpg'' ''image/gif''"
  "has_word ''gif'' ''image/gif''"
  "has_word ''image'' ''image/svg''" "\<not> has_word ''png'' ''image/svg''"
  "\<not> has_word ''jpeg'' ''image/svg''" "\<not> has_word ''jpg'' ''image/svg''"
  "\<not> has_word ''gif'' ''image/svg''" "has_word ''svg'' ''image/svg''"
  "has_word ''image'' ''image/webp''" "\<not> has_word ''png'' ''image/webp''"
  "\<not> has_word ''jpeg'' ''image/webp''" "\<not> has_word ''jpg'' ''image/webp''"
  "\<not> has_word ''gif'' ''image/webp''" "\<not> has_word ''svg'' ''image/webp''"
  "has_word ''webp'' ''image/webp''"
  "\<not> has_word ''image'' ''video/mp4''" "has_word ''video'' ''video/mp4''"
  "has_word ''mp4'' ''video/mp4''"
  "\<not> has_word ''image'' ''video/webm''" "has_word ''video'' ''video/webm''"
  "\<not> has_word ''mp4'' ''video/webm''" "has_word ''webm'' ''video/webm''"
  "\<not> has_word ''image'' ''video/avi''" "has_word ''video'' ''video/avi''"
  "\<not> has_word ''mp4'' ''video/avi''" "\<not> has_word ''webm'' ''video/avi''"
  "has_word ''avi'' ''video/avi''"
  "\<not> has_word ''image'' ''audio/wav''" "\<not> has_word ''video'' ''audio/wav''"
  "has_word ''audio'' ''audio/wav''" "has_word ''wav'' ''audio/wav''"
  "\<not> has_word ''image'' ''audio/mp3''" "\<not> has_word ''video'' ''audio/mp3''"
  "has_word ''audio'' ''audio/mp3''" "\<not> has_word ''wav'' ''audio/mp3''"
  "has_word ''mp3'' ''audio/mp3''"
  "\<not> has_word ''image'' ''audio/ogg''" "\<not> has_word ''video'' ''audio/ogg''"
  "has_word ''audio'' ''audio/ogg''" "\<not> has_word ''wav'' ''audio/ogg''"
  "\<not> has_word ''mp3'' ''audio/ogg''" "has_word ''ogg'' ''audio/ogg''"
  "\<not> has_word ''image'' ''application/octet-stream''"
  "\<not> has_word ''video'' ''application/octet-stream''"
  "\<not> has_word ''audio'' ''application/octet-stream''"
  "has_word ''application/octet-stream'' ''application/octet-stream''"
  by code_simp+

lemma maps_rows_production: "maps_rows determine_file_extension table_rows"
  by (simp add: maps_rows_def table_rows_def determine_file_extension_cases table_words)

lemma maps_rows_cbf:
  "maps_rows determine_file_extension_cbf table_rows"
  "maps_rows determine_file_extension_cbf table_rows_cbf"
  by (simp_all add: maps_rows_def table_rows_def table_rows_cbf_def
      determine_file_extension_cbf_cases table_words)

text \<open>
  Claim C5, as amended. \<open>_determine_file_extension\<close> is a function of the content type
  and the filename only, and it applies the stated table by case-insensitive substring
  tests, the families in the order image, video, audio, model or
  application/octet-stream: in both variants (\<open>resolves_by_table\<close>), so that every
  content type the table writes out gets the stated extension (the rows for
  \<open>video/avi\<close> and \<open>audio/ogg\<close> in the variant of critical\_bug\_fixes.py), a content
  type with none of the family words gets the suffix of the filename, or \<open>.png\<close> when
  the filename has none, and a content type that merely contains the word of a family is
  resolved by that family.
\<close>

theorem determine_file_extension_table:
  "resolves_by_table determine_file_extension \<and>
   resolves_by_table determine_file_extension_cbf \<and>
   maps_rows determine_file_extension table_rows \<and>
   maps_rows determine_file_extension_cbf (table_rows @ table_rows_cbf) \<and>
   (\<forall>ct fn. video_family ct \<and> has_word ''avi'' ct \<and> \<not> has_word ''mp4'' ct \<and>
        \<not> has_word ''webm'' ct \<longrightarrow> determine_file_extension_cbf ct fn = ''.avi'') \<and>
   (\<forall>ct fn. audio_family ct \<and> has_word ''ogg'' ct \<and> \<not> has_word ''wav'' ct \<and>
        \<not> has_word ''mp3'' ct \<longrightarrow> determine_file_extension_cbf ct fn = ''.ogg'')"
proof -
  have rows: "maps_rows determine_file_extension_cbf (table_rows @ table_rows_cbf)"
    using maps_rows_cbf by (simp add: maps_rows_def)
  have avi: "\<forall>ct fn. video_family ct \<and> has_word ''avi'' ct \<and> \<not> has_word ''mp4'' ct \<and>
        \<not> has_word ''webm'' ct \<longrightarrow> determine_file_extension_cbf ct fn = ''.avi''"
    by (simp add: determine_file_extension_cbf_cases family_defs)
  have ogg: "\<forall>ct fn. audio_family ct \<and> has_word ''ogg'' ct \<and> \<not> has_word ''wav'' ct \<and>
        \<not> has_word ''mp3'' ct \<longrightarrow> determine_file_extension_cbf ct fn = ''.ogg''"
    by (simp add: determine_file_extension_cbf_cases family_defs)
  from resolves_by_table_production resolves_by_table_cbf maps_rows_production rows avi ogg
  show ?thesis by blast
qed

theorem determine_file_extension_table_witness:
  "no_family ''text/plain'' \<and>
   determine_file_extension ''text/plain'' ''a.foo'' = ''.foo'' \<and>
   determine_file_extension_cbf ''text/plain'' ''a'' = ''.png'' \<and>
   image_family ''Image/SVG+xml'' \<and>
   determine_file_extension ''Image/SVG+xml'' ''a.foo'' = ''.svg'' \<and>
   model_family ''model/gltf-binary'' \<and>
   determine_file_extension_cbf ''model/gltf-binary'' ''a.foo'' = ''.glb'' \<and>
   video_family ''video/x-msvideo; codec=avi'' \<and>
   determine_file_extension_cbf ''video/x-msvideo; codec=avi'' ''a.foo'' = ''.avi'' \<and>
   determine_file_extension_cbf ''image/png'' ''x'' = ''.png''"
proof -
  note t = determine_file_extension_table [unfolded resolves_by_table_def maps_rows_def]
  have f: "no_family ''text/plain''" "image_family ''Image/SVG+xml''"
    "model_family ''model/gltf-binary''" "video_family ''video/x-msvideo; codec=avi''"
    by code_simp+
  have w: "\<not> has_word ''png'' ''Image/SVG+xml''" "\<not> has_word ''jpeg'' ''Image/SVG+xml''"
    "\<not> has_word ''jpg'' ''Image/SVG+xml''" "\<not> has_word ''gif'' ''Image/SVG+xml''"
    "has_word ''svg'' ''Image/SVG+xml''"
    "has_word ''avi'' ''video/x-msvideo; codec=avi''"
    "\<not> has_word ''mp4'' ''video/x-msvideo; codec=avi''"
    "\<not> has_word ''webm'' ''video/x-msvideo; codec=avi''"
    by code_simp+
  have s: "path_suffix ''a.foo'' = ''.foo''" "path_suffix ''a'' = []"
    by code_simp+
  have 1: "determine_file_extension ''text/plain'' ''a.foo'' = ''.foo''"
    using t f(1) s(1) by simp
  have 2: "determine_file_extension_cbf ''text/plain'' ''a'' = ''.png''"
    using t f(1) s(2) by simp
  have 3: "determine_file_extension ''Image/SVG+xml'' ''a.foo'' = ''.svg''"
    using t f(2) w by simp
  have 4: "determine_file_extension_cbf ''model/gltf-binary'' ''a.foo'' = ''.glb''"
    using t f(3) by simp
  have 5: "determine_file_extension_cbf ''video/x-msvideo; codec=avi'' ''a.foo'' = ''.avi''"
    using t f(4) w by simp
  have 6: "determine_file_extension_cbf ''image/png'' ''x'' = ''.png''"
    using t by (simp add: table_rows_def)
  from f 1 2 3 4 5 6 show ?thesis by simp
qed

text \<open>
  Where the claim as stated fails. The content type
  \<open>application/vnd.oasis.opendocument.image\<close> is neither an image, video, audio or model
  type nor application/octet-stream, and the declared filename has the extension
  \<open>.odi\<close>; the function answers \<open>.png\<close>, because the word \<open>image\<close> occurs in the
  content type. And the variant of production\_ready\_layer\_ai\_server.py has no rows for
  \<open>avi\<close> and \<open>ogg\<close>: it answers \<open>.mp4\<close> for \<open>video/avi\<close> and \<open>.wav\<close> for
  \<open>audio/ogg\<close>.
\<close>

theorem determine_file_extension_counterexample:
  "determine_file_extension_cbf ''application/vnd.oasis.opendocument.image'' ''drawing.odi''
     = ''.png'' \<and>
   determine_file_extension ''application/vnd.oasis.opendocument.image'' ''drawing.odi''
     = ''.png'' \<and>
   path_suffix ''drawing.odi'' = ''.odi'' \<and>
   determine_file_extension ''video/avi'' ''clip.avi'' = ''.mp4'' \<and>
   determine_file_extension ''audio/ogg'' ''sound.ogg'' = ''.wav''"
  by code_simp

section \<open>Transport client: results\<close>

declare request_loop.simps [simp del]

lemma request_loop_3:
  "request_loop w 3 0 None [] =
     (case attempt_once (w 0) of
        Inr r \<Rightarrow> \<lparr>outcome = Inr r, attempts = 1, sleeps = []\<rparr>
      | Inl e0 \<Rightarrow>
          (case attempt_once (w 1) of
             Inr r \<Rightarrow> \<lparr>outcome = Inr r, attempts = 2, sleeps = [1]\<rparr>
           | Inl e1 \<Rightarrow>
               (case attempt_once (w 2) of
                  Inr r \<Rightarrow> \<lparr>outcome = Inr r, attempts = 3, sleeps = [1, 2]\<rparr>
                | Inl e2 \<Rightarrow>
                    \<lparr>outcome = Inl (RetriesExhausted 3 (Some e2)), attempts = 3,
                      sleeps = [1, 2]\<rparr>)))"
proof -
  have s3: "request_loop w 3 3 le sl =
      \<lparr>outcome = Inl (RetriesExhausted 3 le), attempts = 3, sleeps = sl\<rparr>" for le sl
    by (subst request_loop.simps) simp
  have s2: "request_loop w 3 2 le sl =
      (case attempt_once (w 2) of
         Inr r \<Rightarrow> \<lparr>outcome = Inr r, attempts = 3, sleeps = sl\<rparr>
       | Inl e \<Rightarrow> \<lparr>outcome = Inl (RetriesExhausted 3 (Some e)), attempts = 3, sleeps = sl\<rparr>)"
    for le sl
    by (subst request_loop.simps) (simp add: s3 split: sum.splits)
  have s1: "request_loop w 3 1 le sl =
      (case attempt_once (w 1) of
         Inr r \<Rightarrow> \<lparr>outcome = Inr r, attempts = 2, sleeps = sl\<rparr>
       | Inl e \<Rightarrow> request_loop w 3 2 (Some e) (sl @ [2]))" for le sl
    by (subst request_loop.simps) (simp add: numeral_2_eq_2 split: sum.splits)
  have s0: "request_loop w 3 0 le sl =
      (case attempt_once (w 0) of
         Inr r \<Rightarrow> \<lparr>outcome = Inr r, attempts = 1, sleeps = sl\<rparr>
       | Inl e \<Rightarrow> request_loop w 3 1 (Some e) (sl @ [1]))" for le sl
    by (subst request_loop.simps) (simp split: sum.splits)
  show ?thesis
    by (simp only: s0 s1 s2 append_Nil append_Cons)
qed

lemma check_errors_returns_iff: "(\<exists>r. check_errors v = Inr r) \<longleftrightarrow> returned_body v"
  by (cases v)
    (auto simp add: check_errors_def split: sum.splits bool.splits option.splits)

lemma check_errors_returns: "check_errors v = Inr r \<Longrightarrow> r = v"
  by (auto simp add: check_errors_def split: sum.splits bool.splits)

lemma failed_attempt_iff:
  "failed_attempt r \<longleftrightarrow>
     (case r of
        Raises m \<Rightarrow> True
      | Replies status_code b \<Rightarrow>
          status_code \<noteq> 200 \<or> (case b of NotJson \<Rightarrow> True | Json v \<Rightarrow> \<not> returned_body v))"
proof (cases r)
  case (Raises m)
  then show ?thesis by (simp add: failed_attempt_def)
next
  case (Replies status_code b)
  show ?thesis
  proof (cases b)
    case NotJson
    with Replies show ?thesis by (simp add: failed_attempt_def)
  next
    case (Json v)
    have "(case check_errors v of Inl e \<Rightarrow> True | Inr x \<Rightarrow> False) \<longleftrightarrow> \<not> returned_body v"
      using check_errors_returns_iff [of v] by (cases "check_errors v") auto
    with Replies Json show ?thesis by (simp add: failed_attempt_def)
  qed
qed

lemma upt_3_cases:
  "[0..<0] = ([] :: nat list)" "[0..<Suc 0] = [0]" "[0..<2] = [0, Suc 0]"
  by (simp_all add: numeral_2_eq_2)

text \<open>
  Claim C2, as amended. \<open>_make_graphql_request\<close> makes between one and three attempts
  and sleeps \<open>2^attempt\<close> seconds between consecutive attempts (1, then 2). It returns the
  result of the first attempt that does not fail; when the third attempt fails too, it
  raises an error that wraps the error of that third attempt. Every failed attempt before
  the third is retried, whatever made it fail: an exception of the HTTP client, a status
  code other than 200 (201 to 299 included), a body that is not JSON, and also a 200 body
  in which \<open>"errors" in result\<close> holds or cannot be evaluated, a dict with a top-level
  \<open>errors\<close> entry in the first place. An attempt succeeds exactly on a 200 answer whose
  decoded body passes that test, and then returns the body.
\<close>

theorem make_graphql_request_retries:
  "(let run = make_graphql_request w in
     1 \<le> attempts run \<and> attempts run \<le> 3 \<and>
     sleeps run = map (\<lambda>attempt. 2 ^ attempt) [0..<attempts run - 1] \<and>
     (\<forall>k. k < attempts run - 1 \<longrightarrow> failed_attempt (w k)) \<and>
     (case outcome run of
        Inr result \<Rightarrow> attempt_once (w (attempts run - 1)) = Inr result
      | Inl e \<Rightarrow>
          attempts run = 3 \<and> failed_attempt (w 2) \<and>
          e = RetriesExhausted 3 (attempt_error (w 2))) \<and>
     (failed_attempt (w 0) \<longrightarrow> 2 \<le> attempts run) \<and>
     (failed_attempt (w 0) \<and> failed_attempt (w 1) \<longrightarrow> attempts run = 3)) \<and>
   failed_attempt (Raises m) \<and>
   (status_code \<noteq> 200 \<longrightarrow> failed_attempt (Replies status_code b)) \<and>
   failed_attempt (Replies 200 NotJson) \<and>
   (''errors'' \<in> set (map fst items) \<longrightarrow> failed_attempt (Replies 200 (Json (JDict items)))) \<and>
   (failed_attempt (Replies 200 (Json v)) \<longleftrightarrow> \<not> returned_body v) \<and>
   (returned_body v \<longrightarrow> attempt_once (Replies 200 (Json v)) = Inr v)"
proof -
  have f: "failed_attempt (Raises m) \<and>
     (status_code \<noteq> 200 \<longrightarrow> failed_attempt (Replies status_code b)) \<and>
     failed_attempt (Replies 200 NotJson) \<and>
     (''errors'' \<in> set (map fst items) \<longrightarrow> failed_attempt (Replies 200 (Json (JDict items)))) \<and>
     (failed_attempt (Replies 200 (Json v)) \<longleftrightarrow> \<not> returned_body v)"
    by (simp add: failed_attempt_iff)
  have g: "returned_body v \<longrightarrow> attempt_once (Replies 200 (Json v)) = Inr v"
  proof
    assume "returned_body v"
    then obtain r where "check_errors v = Inr r"
      using check_errors_returns_iff [of v] by blast
    then show "attempt_once (Replies 200 (Json v)) = Inr v"
      using check_errors_returns [of v r] by simp
  qed
  have l: "\<And>k::nat. k < Suc 0 \<longleftrightarrow> k = 0" "\<And>k::nat. k < 2 \<longleftrightarrow> k = 0 \<or> k = 1"
    by auto
  have r: "let run = make_graphql_request w in
     1 \<le> attempts run \<and> attempts run \<le> 3 \<and>
     sleeps run = map (\<lambda>attempt. 2 ^ attempt) [0..<attempts run - 1] \<and>
     (\<forall>k. k < attempts run - 1 \<longrightarrow> failed_attempt (w k)) \<and>
     (case outcome run of
        Inr result \<Rightarrow> attempt_once (w (attempts run - 1)) = Inr result
      | Inl e \<Rightarrow>
          attempts run = 3 \<and> failed_attempt (w 2) \<and>
          e = RetriesExhausted 3 (attempt_error (w 2))) \<and>
     (failed_attempt (w 0) \<longrightarrow> 2 \<le> attempts run) \<and>
     (failed_attempt (w 0) \<and> failed_attempt (w 1) \<longrightarrow> attempts run = 3)"
    unfolding make_graphql_request_def request_loop_3 Let_def
    by (cases "attempt_once (w 0)"; cases "attempt_once (w 1)"; cases "attempt_once (w 2)")
      (simp_all add: failed_attempt_def attempt_error_def upt_3_cases l)
  from r f g show ?thesis by blast
qed

theorem make_graphql_request_retries_witness:
  "failed_attempt (always_rejected 0) \<and> failed_attempt (always_rejected 1) \<and>
   attempts (make_graphql_request always_rejected) = 3 \<and>
   sleeps (make_graphql_request always_rejected) = [1, 2] \<and>
   outcome (make_graphql_request always_rejected) =
     Inl (RetriesExhausted 3 (Some (GraphQLError (JText ''quota exceeded''))))"
proof -
  have a0: "attempt_once (always_rejected k) = Inl (GraphQLError (JText ''quota exceeded''))"
    for k
    by (simp add: always_rejected_def rejection_def check_errors_def)
  have f: "failed_attempt (always_rejected 0)" "failed_attempt (always_rejected 1)"
    by (simp_all add: failed_attempt_def a0)
  have e: "attempt_error (always_rejected 2) = Some (GraphQLError (JText ''quota exceeded''))"
    by (simp add: attempt_error_def a0)
  note t = make_graphql_request_retries
    [of always_rejected undefined 0 undefined undefined undefined, unfolded Let_def]
  from t f have a: "attempts (make_graphql_request always_rejected) = 3"
    by blast
  from t have "sleeps (make_graphql_request always_rejected) =
      map (\<lambda>attempt. 2 ^ attempt) [0..<attempts (make_graphql_request always_rejected) - 1]"
    by blast
  with a have sl: "sleeps (make_graphql_request always_rejected) = [1, 2]"
    by (simp add: upt_3_cases)
  from t have "case outcome (make_graphql_request always_rejected) of
        Inr result \<Rightarrow>
          attempt_once (always_rejected (attempts (make_graphql_request always_rejected) - 1))
            = Inr result
      | Inl e \<Rightarrow>
          attempts (make_graphql_request always_rejected) = 3 \<and>
          failed_attempt (always_rejected 2) \<and>
          e = RetriesExhausted 3 (attempt_error (always_rejected 2))"
    by blast
  with a e have o: "outcome (make_graphql_request always_rejected) =
       Inl (RetriesExhausted 3 (Some (GraphQLError (JText ''quota exceeded''))))"
    by (cases "outcome (make_graphql_request always_rejected)") (simp_all add: a0)
  from f a sl o show ?thesis by simp
qed

text \<open>
  Where the claim as stated fails: a 200 answer whose body carries an error list is
  retried. Against a server that rejects the first request in that way and accepts the
  second, the client sleeps one second, makes a second attempt and returns its result.
\<close>

theorem make_graphql_request_counterexample:
  "attempt_once (rejected_then_fine 0) = Inl (GraphQLError (JText ''quota exceeded'')) \<and>
   make_graphql_request rejected_then_fine =
     \<lparr>outcome = Inr fine_body, attempts = 2, sleeps = [1]\<rparr>"
proof -
  have 0: "attempt_once (rejected_then_fine 0) = Inl (GraphQLError (JText ''quota exceeded''))"
    by (simp add: rejected_then_fine_def rejection_def check_errors_def)
  have 1: "attempt_once (rejected_then_fine 1) = Inr fine_body"
    by (simp add: rejected_then_fine_def fine_body_def check_errors_def)
  from 0 1 show ?thesis
    by (simp add: make_graphql_request_def request_loop_3)
qed

section \<open>Polling loop: results\<close>

declare wait_loop.simps [simp del]


lemma wait_loop_timeout:
  "\<not> t < 300 \<Longrightarrow>
   wait_loop w t cf p s rt =
     \<lparr>returned = TimedOut rt 300, final_elapsed = t, poll_count = p, total_slept = s\<rparr>"
  by (subst wait_loop.simps) (simp add: max_wait_time_def)

lemma wait_loop_not_found:
  "t < 300 \<Longrightarrow> poll_at w t = PollNotFound \<Longrightarrow>
   wait_loop w t cf p s rt =
     \<lparr>returned = InferenceNotFound, final_elapsed = t, poll_count = Suc p,
       total_slept = s + backoff w t\<rparr>"
  by (subst wait_loop.simps) (simp add: max_wait_time_def poll_at_def backoff_def Let_def)

lemma wait_loop_complete:
  "t < 300 \<Longrightarrow> poll_at w t = PollComplete rep \<Longrightarrow>
   wait_loop w t cf p s rt =
     \<lparr>returned = Completed (rt @ [t]) rep, final_elapsed = t, poll_count = Suc p,
       total_slept = s + backoff w t\<rparr>"
  by (subst wait_loop.simps) (simp add: max_wait_time_def poll_at_def backoff_def Let_def)

lemma wait_loop_failed:
  "t < 300 \<Longrightarrow> poll_at w t = PollFailed \<Longrightarrow>
   wait_loop w t cf p s rt =
     \<lparr>returned = GenerationFailed rt t, final_elapsed = t, poll_count = Suc p,
       total_slept = s + backoff w t\<rparr>"
  by (subst wait_loop.simps) (simp add: max_wait_time_def poll_at_def backoff_def Let_def)

lemma wait_loop_cancelled:
  "t < 300 \<Longrightarrow> poll_at w t = PollCancelled \<Longrightarrow>
   wait_loop w t cf p s rt =
     \<lparr>returned = GenerationCancelled rt t, final_elapsed = t, poll_count = Suc p,
       total_slept = s + backoff w t\<rparr>"
  by (subst wait_loop.simps) (simp add: max_wait_time_def poll_at_def backoff_def Let_def)

lemma wait_loop_pending:
  "t < 300 \<Longrightarrow> poll_at w t = PollPending \<Longrightarrow>
   wait_loop w t cf p s rt = wait_loop w (t + 5) 0 (Suc p) (s + backoff w t + 5) rt"
  by (subst wait_loop.simps)
    (simp add: max_wait_time_def poll_at_def backoff_def Let_def check_interval_def)

lemma wait_loop_fail_stop:
  "t < 300 \<Longrightarrow> poll_at w t = PollFailure e \<Longrightarrow> 2 \<le> cf \<Longrightarrow>
   wait_loop w t cf p s rt =
     \<lparr>returned = StatusCheckFailed rt (Suc cf) e, final_elapsed = t, poll_count = Suc p,
       total_slept = s + backoff w t\<rparr>"
  by (subst wait_loop.simps)
    (simp add: max_wait_time_def poll_at_def backoff_def Let_def max_consecutive_failures_def)

lemma wait_loop_fail_continue:
  "t < 300 \<Longrightarrow> poll_at w t = PollFailure e \<Longrightarrow> cf < 2 \<Longrightarrow>
   wait_loop w t cf p s rt = wait_loop w (t + 5) (Suc cf) (Suc p) (s + backoff w t + 5) rt"
  by (subst wait_loop.simps)
    (simp add: max_wait_time_def poll_at_def backoff_def Let_def max_consecutive_failures_def
      check_interval_def)

text \<open>
  A poll that raises after line 586 leaves the counter at 1, whatever it was, and the
  loop goes on.
\<close>

lemma wait_loop_late:
  "t < 300 \<Longrightarrow> poll_at w t = PollLateFailure c e \<Longrightarrow>
   wait_loop w t cf p s rt =
     wait_loop w (t + 5) 1 (Suc p) (s + backoff w t + 5) (if c then rt @ [t] else rt)"
  by (subst wait_loop.simps)
    (simp add: max_wait_time_def poll_at_def backoff_def Let_def max_consecutive_failures_def
      check_interval_def)

lemma wait_loop_cases:
  obtains (timeout) "\<not> t < 300"
  | (not_found) "t < 300" "poll_at w t = PollNotFound"
  | (complete) rep where "t < 300" "poll_at w t = PollComplete rep"
  | (failed) "t < 300" "poll_at w t = PollFailed"
  | (cancelled) "t < 300" "poll_at w t = PollCancelled"
  | (pending) "t < 300" "poll_at w t = PollPending"
  | (fail_stop) e where "t < 300" "poll_at w t = PollFailure e" "2 \<le> (cf::nat)"
  | (fail_continue) e where "t < 300" "poll_at w t = PollFailure e" "cf < 2"
  | (late) c e where "t < 300" "poll_at w t = PollLateFailure c e"
  by (cases "poll_at w t") (fastforce+)






lemma wait_loop_not_found_report:
  "300 \<le> t + 5 * k \<Longrightarrow> returned (wait_loop w t cf p s rt) = InferenceNotFound \<Longrightarrow>
   final_elapsed (wait_loop w t cf p s rt) < 300 \<and>
   poll_at w (final_elapsed (wait_loop w t cf p s rt)) = PollNotFound"
proof (induction k arbitrary: t cf p s rt)
  case 0
  then show ?case by (simp add: wait_loop_timeout)
next
  case (Suc k)
  from Suc.prems have nx: "300 \<le> (t + 5) + 5 * k" by simp
  show ?case
  proof (cases rule: wait_loop_cases [where t = t and w = w and cf = cf])
    case timeout
    with Suc.prems show ?thesis by (simp add: wait_loop_timeout)
  next
    case not_found
    then show ?thesis by (simp add: wait_loop_not_found)
  next
    case (complete rep)
    with Suc.prems show ?thesis by (simp add: wait_loop_complete)
  next
    case failed
    with Suc.prems show ?thesis by (simp add: wait_loop_failed)
  next
    case cancelled
    with Suc.prems show ?thesis by (simp add: wait_loop_cancelled)
  next
    case pending
    from Suc.IH [OF nx, of 0 "Suc p" "s + backoff w t + 5" rt] Suc.prems(2)
    show ?thesis by (simp add: wait_loop_pending [OF pending])
  next
    case (fail_stop e)
    with Suc.prems show ?thesis by (simp add: wait_loop_fail_stop)
  next
    case (fail_continue e)
    from Suc.IH [OF nx, of "Suc cf" "Suc p" "s + backoff w t + 5" rt] Suc.prems(2)
    show ?thesis by (simp add: wait_loop_fail_continue [OF fail_continue])
  next
    case (late c e)
    from Suc.IH [OF nx, of 1 "Suc p" "s + backoff w t + 5" "if c then rt @ [t] else rt"]
      Suc.prems(2)
    show ?thesis by (simp add: wait_loop_late [OF late])
  qed
qed

lemma poll_outcome_not_found_iff:
  "poll_outcome r = PollNotFound \<longleftrightarrow>
     (\<exists>v infs. r = Inr v \<and> read_inferences v = Inr infs \<and> \<not> py_truth infs)"
  by (auto simp add: poll_outcome_def split: sum.splits if_splits)

lemma wait_loop_pending_prefix:
  "(\<forall>i<j. poll_pending (poll_at w (t + 5 * i))) \<Longrightarrow> t + 5 * j < 300 \<Longrightarrow>
   poll_at w (t + 5 * j) = PollNotFound \<Longrightarrow>
   returned (wait_loop w t cf p s rt) = InferenceNotFound \<and>
   final_elapsed (wait_loop w t cf p s rt) = t + 5 * j \<and>
   poll_count (wait_loop w t cf p s rt) = p + j + 1"
proof (induction j arbitrary: t cf p s)
  case 0
  then show ?case by (simp add: wait_loop_not_found)
next
  case (Suc j)
  from Suc.prems have t: "t < 300" by simp
  from Suc.prems(1) [rule_format, of 0] have "poll_pending (poll_at w t)" by simp
  then have st: "poll_at w t = PollPending"
    by (cases "poll_at w t") simp_all
  have a: "\<forall>i<j. poll_pending (poll_at w ((t + 5) + 5 * i))"
  proof (intro allI impI)
    fix i assume "i < j"
    then have "Suc i < Suc j" by simp
    from Suc.prems(1) [rule_format, OF this]
    show "poll_pending (poll_at w ((t + 5) + 5 * i))" by (simp add: add.assoc)
  qed
  from Suc.prems have b: "(t + 5) + 5 * j < 300"
    and c: "poll_at w ((t + 5) + 5 * j) = PollNotFound"
    by (simp_all add: add.assoc)
  from Suc.IH [OF a b c, of 0 "Suc p" "s + backoff w t + 5"]
  show ?case by (simp add: wait_loop_pending [OF t st])
qed




text \<open>
  Claim C10. When a successful status poll returns an empty list of inferences (or any
  other value that the test \<open>not inferences\<close> holds empty), the loop returns the
  "Inference not found" result at once, in whatever state it is: nothing is added to
  \<open>elapsed_time\<close>, no further poll is made, and the consecutive-failure counter plays
  no part (the equation holds for every value of it). In a run whose earlier polls all
  reported a job in progress, the result is "Inference not found" at that poll; and
  whenever a run returns it, the poll made last had succeeded with such a list. The
  result is a value of its own, different from the terminal statuses, the failure report
  and the timeout.
\<close>

theorem inference_not_found_stops:
  "(t < 300 \<and> outcome (make_graphql_request (w t)) = Inr v \<and>
    read_inferences v = Inr infs \<and> \<not> py_truth infs \<longrightarrow>
      wait_loop w t cf p s rt =
        \<lparr>returned = InferenceNotFound, final_elapsed = t, poll_count = Suc p,
          total_slept = s + backoff w t\<rparr>) \<and>
   (5 * j < 300 \<and> (\<forall>i<j. poll_pending (poll_at w (5 * i))) \<and>
    outcome (make_graphql_request (w (5 * j))) = Inr v \<and>
    read_inferences v = Inr infs \<and> \<not> py_truth infs \<longrightarrow>
      returned (wait_for_completion_with_retry w) = InferenceNotFound \<and>
      final_elapsed (wait_for_completion_with_retry w) = 5 * j \<and>
      poll_count (wait_for_completion_with_retry w) = j + 1) \<and>
   (returned (wait_for_completion_with_retry w) = InferenceNotFound \<longrightarrow>
      final_elapsed (wait_for_completion_with_retry w) < 300 \<and>
      (\<exists>v' infs'.
         outcome (make_graphql_request (w (final_elapsed (wait_for_completion_with_retry w))))
           = Inr v' \<and>
         read_inferences v' = Inr infs' \<and> \<not> py_truth infs'))"
proof (intro conjI impI)
  assume a: "t < 300 \<and> outcome (make_graphql_request (w t)) = Inr v \<and>
    read_inferences v = Inr infs \<and> \<not> py_truth infs"
  then have "poll_at w t = PollNotFound"
    unfolding poll_at_def poll_outcome_not_found_iff by blast
  with a show "wait_loop w t cf p s rt =
        \<lparr>returned = InferenceNotFound, final_elapsed = t, poll_count = Suc p,
          total_slept = s + backoff w t\<rparr>"
    by (simp add: wait_loop_not_found)
next
  assume a: "5 * j < 300 \<and> (\<forall>i<j. poll_pending (poll_at w (5 * i))) \<and>
    outcome (make_graphql_request (w (5 * j))) = Inr v \<and>
    read_inferences v = Inr infs \<and> \<not> py_truth infs"
  then have "poll_at w (5 * j) = PollNotFound"
    unfolding poll_at_def poll_outcome_not_found_iff by blast
  with a have 1: "\<forall>i<j. poll_pending (poll_at w (0 + 5 * i))" and 2: "0 + 5 * j < 300"
    and 3: "poll_at w (0 + 5 * j) = PollNotFound"
    by simp_all
  from wait_loop_pending_prefix [OF 1 2 3, of 0 0 0 "[]"]
  show "returned (wait_for_completion_with_retry w) = InferenceNotFound"
    "final_elapsed (wait_for_completion_with_retry w) = 5 * j"
    "poll_count (wait_for_completion_with_retry w) = j + 1"
    by (simp_all add: wait_for_completion_with_retry_def)
next
  assume a: "returned (wait_for_completion_with_retry w) = InferenceNotFound"
  have k: "(300::nat) \<le> 0 + 5 * 60" by simp
  from wait_loop_not_found_report [OF k, of w 0 0 0 "[]"] a
  have l: "final_elapsed (wait_for_completion_with_retry w) < 300"
    and n: "poll_at w (final_elapsed (wait_for_completion_with_retry w)) = PollNotFound"
    by (simp_all add: wait_for_completion_with_retry_def)
  from l show "final_elapsed (wait_for_completion_with_retry w) < 300" .
  from n show "\<exists>v' infs'.
         outcome (make_graphql_request (w (final_elapsed (wait_for_completion_with_retry w))))
           = Inr v' \<and>
         read_inferences v' = Inr infs' \<and> \<not> py_truth infs'"
    unfolding poll_at_def poll_outcome_not_found_iff .
qed

theorem inference_not_found_stops_witness:
  "(10::nat) < 300 \<and>
   outcome (make_graphql_request (forgetful_endpoint 10)) = Inr (status_body (JList [])) \<and>
   read_inferences (status_body (JList [])) = Inr (JList []) \<and> \<not> py_truth (JList []) \<and>
   wait_loop forgetful_endpoint 10 2 7 0 [] =
     \<lparr>returned = InferenceNotFound, final_elapsed = 10, poll_count = 8, total_slept = 0\<rparr> \<and>
   poll_pending (poll_at forgetful_endpoint 0) \<and> poll_pending (poll_at forgetful_endpoint 5) \<and>
   returned (wait_for_completion_with_retry forgetful_endpoint) = InferenceNotFound \<and>
   final_elapsed (wait_for_completion_with_retry forgetful_endpoint) = 10 \<and>
   poll_count (wait_for_completion_with_retry forgetful_endpoint) = 3"
proof -
  have o: "outcome (make_graphql_request (forgetful_endpoint (5 * 2)))
      = Inr (status_body (JList []))"
    "outcome (make_graphql_request (forgetful_endpoint 10)) = Inr (status_body (JList []))"
    by code_simp+
  have ri: "read_inferences (status_body (JList [])) = Inr (JList [])" by code_simp
  have nt: "\<not> py_truth (JList [])" by simp
  have b: "backoff forgetful_endpoint 10 = 0" by code_simp
  have pe: "poll_pending (poll_at forgetful_endpoint 0)"
    "poll_pending (poll_at forgetful_endpoint 5)"
    by code_simp+
  have pre: "\<forall>i<2. poll_pending (poll_at forgetful_endpoint (5 * i))"
  proof (intro allI impI)
    fix i :: nat assume "i < 2"
    then consider "i = 0" | "i = 1" by linarith
    then show "poll_pending (poll_at forgetful_endpoint (5 * i))"
      using pe by cases simp_all
  qed
  note t1 = inference_not_found_stops [where t = 10 and w = forgetful_endpoint and cf = 2
      and p = 7 and s = 0 and rt = "[]" and j = 2 and v = "status_body (JList [])"
      and infs = "JList []"]
  from t1 o ri nt b have 1: "wait_loop forgetful_endpoint 10 2 7 0 [] =
     \<lparr>returned = InferenceNotFound, final_elapsed = 10, poll_count = 8, total_slept = 0\<rparr>"
    by simp
  from t1 o ri nt pre have 2: "returned (wait_for_completion_with_retry forgetful_endpoint)
      = InferenceNotFound"
    "final_elapsed (wait_for_completion_with_retry forgetful_endpoint) = 10"
    "poll_count (wait_for_completion_with_retry forgetful_endpoint) = 3"
    by simp_all
  from o ri nt 1 2 pe show ?thesis by simp
qed

section \<open>Upload and input files: results\<close>

lemma attempts_pos: "1 \<le> attempts (make_graphql_request w)"
  unfolding make_graphql_request_def request_loop_3
  by (simp split: sum.splits)

lemma upload_transfer_calls:
  "snd (upload_transfer fs ws world p) \<noteq> [] \<and> hd (snd (upload_transfer fs ws world p)) = GraphqlPost"
proof -
  obtain n where n: "attempts (make_graphql_request (slot_request world)) = Suc n"
    using attempts_pos [of "slot_request world"]
    by (cases "attempts (make_graphql_request (slot_request world))") simp_all
  show ?thesis
    by (simp add: upload_transfer_def Let_def n
        split: sum.splits prod.splits put_outcome.splits)
qed

text \<open>
  Claim C7, as amended. Before any network call the upload checks the path, not the size.
  The production variant fails without a network call exactly when the path is the empty
  string, does not exist or is not a regular file, each with its own error; the variant of
  critical\_bug\_fixes.py fails without a network call when the path is the empty string or
  does not exist. In both variants a regular file of any size, an empty one and one above
  50 MiB included, goes on to the request for an upload slot.
\<close>

theorem upload_validation:
  "(snd (upload_file_to_layer fs ws world p) = [] \<longleftrightarrow>
      p = [] \<or> \<not> path_exists fs p \<or> \<not> path_isfile fs p) \<and>
   (p = [] \<longrightarrow> upload_file_to_layer fs ws world p = (Inl EmptyPath, [])) \<and>
   (p \<noteq> [] \<and> \<not> path_exists fs p \<longrightarrow>
      upload_file_to_layer fs ws world p = (Inl (FileNotFound p), [])) \<and>
   (p \<noteq> [] \<and> path_exists fs p \<and> \<not> path_isfile fs p \<longrightarrow>
      upload_file_to_layer fs ws world p = (Inl (NotAFile p), [])) \<and>
   (p \<noteq> [] \<and> fs p = RegularFile n r \<longrightarrow>
      upload_file_to_layer fs ws world p = upload_transfer fs ws world p \<and>
      hd (snd (upload_file_to_layer fs ws world p)) = GraphqlPost) \<and>
   (p = [] \<or> \<not> path_exists fs p \<longrightarrow>
      upload_file_to_layer_cbf fs ws world p = (Inl (InvalidFilePath p), [])) \<and>
   (p \<noteq> [] \<and> fs p = RegularFile n r \<longrightarrow>
      upload_file_to_layer_cbf fs ws world p = upload_transfer fs ws world p \<and>
      hd (snd (upload_file_to_layer_cbf fs ws world p)) = GraphqlPost)"
proof -
  note c = upload_transfer_calls [of fs ws world p]
  have 1: "snd (upload_file_to_layer fs ws world p) = [] \<longleftrightarrow>
      p = [] \<or> \<not> path_exists fs p \<or> \<not> path_isfile fs p"
    using c by (simp add: upload_file_to_layer_def)
  have 2: "p \<noteq> [] \<and> fs p = RegularFile n r \<longrightarrow>
      upload_file_to_layer fs ws world p = upload_transfer fs ws world p \<and>
      hd (snd (upload_file_to_layer fs ws world p)) = GraphqlPost"
    using c by (simp add: upload_file_to_layer_def path_exists_def path_isfile_def)
  have 3: "p \<noteq> [] \<and> fs p = RegularFile n r \<longrightarrow>
      upload_file_to_layer_cbf fs ws world p = upload_transfer fs ws world p \<and>
      hd (snd (upload_file_to_layer_cbf fs ws world p)) = GraphqlPost"
    using c by (simp add: upload_file_to_layer_cbf_def path_exists_def)
  have 4: "(p = [] \<longrightarrow> upload_file_to_layer fs ws world p = (Inl EmptyPath, [])) \<and>
   (p \<noteq> [] \<and> \<not> path_exists fs p \<longrightarrow>
      upload_file_to_layer fs ws world p = (Inl (FileNotFound p), [])) \<and>
   (p \<noteq> [] \<and> path_exists fs p \<and> \<not> path_isfile fs p \<longrightarrow>
      upload_file_to_layer fs ws world p = (Inl (NotAFile p), []))"
    by (simp add: upload_file_to_layer_def)
  have 5: "p = [] \<or> \<not> path_exists fs p \<longrightarrow>
      upload_file_to_layer_cbf fs ws world p = (Inl (InvalidFilePath p), [])"
    by (auto simp add: upload_file_to_layer_cbf_def)
  from 1 2 3 4 5 show ?thesis by blast
qed

theorem upload_validation_witness:
  "sample_disk ''in/huge.png'' = RegularFile (60 * mebibyte) True \<and>
   hd (snd (upload_file_to_layer sample_disk ''ws'' fine_world ''in/huge.png'')) = GraphqlPost \<and>
   hd (snd (upload_file_to_layer_cbf sample_disk ''ws'' fine_world ''in/huge.png''))
     = GraphqlPost \<and>
   path_exists sample_disk ''in'' \<and> \<not> path_isfile sample_disk ''in'' \<and>
   upload_file_to_layer sample_disk ''ws'' fine_world ''in'' = (Inl (NotAFile ''in''), []) \<and>
   \<not> path_exists sample_disk ''nowhere'' \<and>
   upload_file_to_layer sample_disk ''ws'' fine_world ''nowhere''
     = (Inl (FileNotFound ''nowhere''), []) \<and>
   upload_file_to_layer_cbf sample_disk ''ws'' fine_world ''nowhere''
     = (Inl (InvalidFilePath ''nowhere''), [])"
proof -
  have d: "sample_disk ''in/huge.png'' = RegularFile (60 * mebibyte) True"
    "path_exists sample_disk ''in''" "\<not> path_isfile sample_disk ''in''"
    "\<not> path_exists sample_disk ''nowhere''"
    by (simp_all add: sample_disk_def path_exists_def path_isfile_def)
  have ne: "''in/huge.png'' \<noteq> []" "''in'' \<noteq> []" "''nowhere'' \<noteq> []" by simp_all
  note h = upload_validation [where fs = sample_disk and ws = "''ws''" and world = fine_world
      and p = "''in/huge.png''" and n = "60 * mebibyte" and r = True]
  from h d(1) ne
  have 1: "hd (snd (upload_file_to_layer sample_disk ''ws'' fine_world ''in/huge.png''))
      = GraphqlPost"
    "hd (snd (upload_file_to_layer_cbf sample_disk ''ws'' fine_world ''in/huge.png''))
      = GraphqlPost"
    by blast+
  from upload_validation [where fs = sample_disk and ws = "''ws''" and world = fine_world
      and p = "''in''" and n = 0 and r = True] d(2,3) ne
  have 2: "upload_file_to_layer sample_disk ''ws'' fine_world ''in'' = (Inl (NotAFile ''in''), [])"
    by blast
  note m = upload_validation [where fs = sample_disk and ws = "''ws''" and world = fine_world
      and p = "''nowhere''" and n = 0 and r = True]
  from m d(4) ne
  have 3: "upload_file_to_layer sample_disk ''ws'' fine_world ''nowhere''
     = (Inl (FileNotFound ''nowhere''), [])"
    "upload_file_to_layer_cbf sample_disk ''ws'' fine_world ''nowhere''
     = (Inl (InvalidFilePath ''nowhere''), [])"
    by blast+
  from d 1 2 3 show ?thesis by blast
qed

lemma fine_world_request:
  "make_graphql_request (slot_request fine_world) =
     \<lparr>outcome = Inr (JDict [(''data'', JDict [(''createUploadUrls'', JDict [(''uploadUrls'',
            JList [JDict [(''url'', JText ''https://storage.example/put''),
                          (''fileId'', JText ''f1'')]])])])]),
       attempts = 1, sleeps = []\<rparr>"
  by (simp add: make_graphql_request_def request_loop_3 fine_world_def check_errors_def)

lemma fine_world_slot:
  "read_upload_slot (JDict [(''data'', JDict [(''createUploadUrls'', JDict [(''uploadUrls'',
            JList [JDict [(''url'', JText ''https://storage.example/put''),
                          (''fileId'', JText ''f1'')]])])])])
     = Inr (JText ''https://storage.example/put'', JText ''f1'')"
  by (simp add: read_upload_slot_def)

lemma fine_world_put: "put_reply fine_world = PutStatus 200"
  by (simp add: fine_world_def)

lemma sample_uploads:
  "upload_file_to_layer sample_disk ''ws'' fine_world ''in/a.png'' =
     (Inr (MediaUrl ''ws'' (JText ''f1'') ''a.png''), [GraphqlPost, HttpPut])"
  "upload_file_to_layer sample_disk ''ws'' fine_world ''in/c.png'' =
     (Inr (MediaUrl ''ws'' (JText ''f1'') ''c.png''), [GraphqlPost, HttpPut])"
  "upload_file_to_layer_cbf sample_disk ''ws'' fine_world ''in/a.png'' =
     (Inr (MediaUrl ''ws'' (JText ''f1'') ''a.png''), [GraphqlPost, HttpPut])"
  "upload_file_to_layer_cbf sample_disk ''ws'' fine_world ''in/c.png'' =
     (Inr (MediaUrl ''ws'' (JText ''f1'') ''c.png''), [GraphqlPost, HttpPut])"
  by (simp_all add: upload_file_to_layer_def upload_file_to_layer_cbf_def upload_transfer_def
      fine_world_request fine_world_slot fine_world_put basename_def path_exists_def
      path_isfile_def path_readable_def sample_disk_def)

text \<open>
  Where the claim as stated fails: an empty file and a file of 60 MiB do not pass the
  stated validation, and both are uploaded, with one POST and one PUT.
\<close>

theorem upload_validation_counterexample:
  "\<not> stated_validation sample_disk ''in/empty.png'' \<and>
   upload_file_to_layer sample_disk ''ws'' fine_world ''in/empty.png'' =
     (Inr (MediaUrl ''ws'' (JText ''f1'') ''empty.png''), [GraphqlPost, HttpPut]) \<and>
   \<not> stated_validation sample_disk ''in/huge.png'' \<and>
   upload_file_to_layer sample_disk ''ws'' fine_world ''in/huge.png'' =
     (Inr (MediaUrl ''ws'' (JText ''f1'') ''huge.png''), [GraphqlPost, HttpPut])"
proof -
  have v: "\<not> stated_validation sample_disk ''in/empty.png''"
    "\<not> stated_validation sample_disk ''in/huge.png''"
    by (simp_all add: stated_validation_def sample_disk_def mebibyte_def)
  have u: "upload_file_to_layer sample_disk ''ws'' fine_world ''in/empty.png'' =
     (Inr (MediaUrl ''ws'' (JText ''f1'') ''empty.png''), [GraphqlPost, HttpPut])"
    "upload_file_to_layer sample_disk ''ws'' fine_world ''in/huge.png'' =
     (Inr (MediaUrl ''ws'' (JText ''f1'') ''huge.png''), [GraphqlPost, HttpPut])"
    by (simp_all add: upload_file_to_layer_def upload_transfer_def fine_world_request
        fine_world_slot fine_world_put basename_def path_exists_def path_isfile_def
        path_readable_def sample_disk_def)
  from v u show ?thesis by simp
qed

lemma input_files_loop_results:
  "file_urls (input_files_loop upload fs worlds i ps b)
     = file_urls b @ successes (file_results upload fs worlds i ps) \<and>
   failed_uploads (input_files_loop upload fs worlds i ps b)
     = failed_uploads b @ failures (file_results upload fs worlds i ps) \<and>
   net_calls (input_files_loop upload fs worlds i ps b)
     = net_calls b @ calls_of (file_results upload fs worlds i ps)"
proof (induction ps arbitrary: i b)
  case Nil
  then show ?case by (simp add: calls_of_def)
next
  case (Cons p ps)
  show ?case
  proof (cases "path_exists fs p")
    case False
    then show ?thesis by (simp add: Cons.IH file_result_def calls_of_def)
  next
    case True
    obtain r calls where u: "upload (worlds i) p = (r, calls)" by (cases "upload (worlds i) p")
    from True u show ?thesis
      by (cases r) (simp_all add: Cons.IH file_result_def calls_of_def)
  qed
qed

lemma file_results_paths: "map fst (file_results upload fs worlds i ps) = ps"
  by (induction ps arbitrary: i) simp_all

lemma successes_failures_length: "length (successes rs) + length (failures rs) = length rs"
  by (induction rs rule: successes.induct) simp_all

lemma file_results_nth:
  "k < length ps \<Longrightarrow>
   file_results upload fs worlds i ps ! k
     = (ps ! k, file_result upload fs (worlds (i + k)) (ps ! k))"
proof (induction ps arbitrary: i k)
  case Nil
  then show ?case by simp
next
  case (Cons p ps)
  then show ?case by (cases k) simp_all
qed

lemma handle_input_files_results:
  "input_files \<noteq> [] \<Longrightarrow>
   handed_on (handle_input_files upload fs worlds input_files) =
     (let rs = file_results upload fs worlds 0 input_files in
      if failures rs \<noteq> [] \<and> successes rs = [] then Abort (failures rs)
      else Proceed (if successes rs \<noteq> [] then Some (successes rs) else None)) \<and>
   run_calls (handle_input_files upload fs worlds input_files) =
     calls_of (file_results upload fs worlds 0 input_files)"
  by (simp add: handle_input_files_def input_files_loop_results Let_def)

text \<open>
  The collecting of the input files. Each input file has its own outcome, a URL or
  a failure, and the successes and the failures together are as many as the files; a path
  that does not exist is recorded as \<open>file not found\<close> with no network call. When no
  file is uploaded the handling aborts with all the failures, before anything is
  submitted; when at least one is, submission proceeds with exactly the uploaded URLs, in
  order.
\<close>

lemma input_files_collected:
  "(let rs = file_results upload fs worlds 0 input_files;
        out = handle_input_files upload fs worlds input_files
    in map fst rs = input_files \<and>
       length (successes rs) + length (failures rs) = length input_files \<and>
       run_calls out = calls_of rs \<and>
       (\<forall>k. k < length input_files \<and> \<not> path_exists fs (input_files ! k) \<longrightarrow>
          rs ! k = (input_files ! k, Inl FileNotFoundText, [])) \<and>
       (input_files \<noteq> [] \<and> successes rs = [] \<longrightarrow>
          handed_on out = Abort (failures rs) \<and> length (failures rs) = length input_files) \<and>
       (successes rs \<noteq> [] \<longrightarrow> handed_on out = Proceed (Some (successes rs))) \<and>
       (input_files = [] \<longrightarrow> handed_on out = Proceed None \<and> run_calls out = []))"
proof -
  let ?rs = "file_results upload fs worlds 0 input_files"
  let ?out = "handle_input_files upload fs worlds input_files"
  have len: "length ?rs = length input_files"
    using file_results_paths [of upload fs worlds 0 input_files]
    by (metis length_map)
  have 1: "map fst ?rs = input_files" by (rule file_results_paths)
  have 2: "length (successes ?rs) + length (failures ?rs) = length input_files"
    using successes_failures_length [of ?rs] len by simp
  have 3: "run_calls ?out = calls_of ?rs"
  proof (cases "input_files = []")
    case True
    then show ?thesis by (simp add: handle_input_files_def calls_of_def)
  next
    case False
    then show ?thesis by (simp add: handle_input_files_results)
  qed
  have 4: "\<forall>k. k < length input_files \<and> \<not> path_exists fs (input_files ! k) \<longrightarrow>
          ?rs ! k = (input_files ! k, Inl FileNotFoundText, [])"
    by (simp add: file_results_nth file_result_def)
  have 5: "input_files \<noteq> [] \<and> successes ?rs = [] \<longrightarrow>
          handed_on ?out = Abort (failures ?rs) \<and> length (failures ?rs) = length input_files"
  proof
    assume a: "input_files \<noteq> [] \<and> successes ?rs = []"
    with 2 have l: "length (failures ?rs) = length input_files" by simp
    with a have "failures ?rs \<noteq> []" by auto
    with a l show "handed_on ?out = Abort (failures ?rs) \<and>
        length (failures ?rs) = length input_files"
      by (simp add: handle_input_files_results Let_def)
  qed
  have 6: "successes ?rs \<noteq> [] \<longrightarrow> handed_on ?out = Proceed (Some (successes ?rs))"
  proof
    assume a: "successes ?rs \<noteq> []"
    then have "input_files \<noteq> []" by auto
    with a show "handed_on ?out = Proceed (Some (successes ?rs))"
      by (simp add: handle_input_files_results Let_def)
  qed
  have 7: "input_files = [] \<longrightarrow> handed_on ?out = Proceed None \<and> run_calls ?out = []"
    by (simp add: handle_input_files_def)
  from 1 2 3 4 5 6 7 show ?thesis
    unfolding Let_def by blast
qed

lemma sample_paths:
  "path_exists sample_disk ''in/a.png''" "\<not> path_exists sample_disk ''in/b.png''"
  "path_exists sample_disk ''in/c.png''"
  by (simp_all add: path_exists_def sample_disk_def)

text \<open>
  Claim C6. The specification says that when only some of the input files fail,
  submission proceeds with the successfully uploaded subset and a warning is surfaced; the
  comments of the code say the same (\<open>Report upload failures\<close>, \<open>Some uploads
  succeeded, warn user\<close>). For the batch of three files of which the second does not
  exist and the other two are uploaded, the code records exactly one failure, \<open>file not
  found\<close>, and proceeds with the two URLs; but the warning is passed to the logger only.
  What the handling hands on is the list of the two URLs, the very value it hands on for
  the batch of the two good files alone, in both variants.
\<close>

theorem partial_failure_warning_only_logged:
  "handle_input_files (upload_file_to_layer sample_disk ''ws'') sample_disk (\<lambda>i. fine_world)
       [''in/a.png'', ''in/b.png'', ''in/c.png'']
     = \<lparr>handed_on = Proceed (Some [MediaUrl ''ws'' (JText ''f1'') ''a.png'',
                                    MediaUrl ''ws'' (JText ''f1'') ''c.png'']),
         run_log = [LogInfo ''in/a.png'', LogInfo ''in/c.png'',
                    LogWarning [(''in/b.png'', FileNotFoundText)]],
         run_calls = [GraphqlPost, HttpPut, GraphqlPost, HttpPut]\<rparr> \<and>
   handle_input_files (upload_file_to_layer sample_disk ''ws'') sample_disk (\<lambda>i. fine_world)
       [''in/a.png'', ''in/c.png'']
     = \<lparr>handed_on = Proceed (Some [MediaUrl ''ws'' (JText ''f1'') ''a.png'',
                                    MediaUrl ''ws'' (JText ''f1'') ''c.png'']),
         run_log = [LogInfo ''in/a.png'', LogInfo ''in/c.png''],
         run_calls = [GraphqlPost, HttpPut, GraphqlPost, HttpPut]\<rparr> \<and>
   handed_on (handle_input_files (upload_file_to_layer_cbf sample_disk ''ws'') sample_disk
       (\<lambda>i. fine_world) [''in/a.png'', ''in/b.png'', ''in/c.png''])
     = handed_on (handle_input_files (upload_file_to_layer_cbf sample_disk ''ws'') sample_disk
         (\<lambda>i. fine_world) [''in/a.png'', ''in/c.png'']) \<and>
   run_log (handle_input_files (upload_file_to_layer_cbf sample_disk ''ws'') sample_disk
       (\<lambda>i. fine_world) [''in/a.png'', ''in/b.png'', ''in/c.png''])
     = [LogInfo ''in/a.png'', LogInfo ''in/c.png'',
        LogWarning [(''in/b.png'', FileNotFoundText)]]"
  by (simp add: handle_input_files_def sample_paths sample_uploads)

section \<open>Credential store: results\<close>

lemma get_or_create_key_result:
  "get_or_create_key L seed st = (Inr key, st') \<Longrightarrow>
   key_file st' = Content key \<and> token_file st' = token_file st \<and> writable st' = writable st \<and>
   (key_file st = Content key \<and> st' = st \<or>
    key_file st = NoFile \<and> writable st \<and> key = generate_key L seed)"
  by (auto simp add: get_or_create_key_def Let_def split: file_state.splits if_splits)

lemma get_or_create_key_present:
  "key_file st = Content key \<Longrightarrow> get_or_create_key L seed st = (Inr key, st)"
  by (simp add: get_or_create_key_def)

lemma encrypt_data_result:
  "encrypt_data L seed nonce st data = (Inr c, st') \<Longrightarrow>
   \<exists>key. get_or_create_key L seed st = (Inr key, st') \<and> key_ok L key \<and>
         c = encrypt L key nonce data"
  by (auto simp add: encrypt_data_def split: prod.splits sum.splits if_splits)

lemma round_trip:
  assumes c: "library_contract L"
    and e: "encrypt_data L seed nonce st data = (Inr c, st')"
  shows "decrypt_data L seed2 st' c = (Inr data, st')"
proof -
  from encrypt_data_result [OF e] obtain key
    where g: "get_or_create_key L seed st = (Inr key, st')" and k: "key_ok L key"
      and ce: "c = encrypt L key nonce data"
    by blast
  from get_or_create_key_result [OF g] have "key_file st' = Content key" by simp
  then have g2: "get_or_create_key L seed2 st' = (Inr key, st')"
    by (rule get_or_create_key_present)
  from c k have "decrypt L key (encrypt L key nonce data) = Some data"
    by (simp add: library_contract_def)
  with g2 k ce show ?thesis by (simp add: decrypt_data_def)
qed

lemma decrypt_data_fails:
  "key_file st = Content k \<Longrightarrow> \<not> key_ok L k \<or> decrypt L k c = None \<Longrightarrow>
   \<exists>e. decrypt_data L seed st c = (Inl e, st)"
  by (auto simp add: decrypt_data_def get_or_create_key_present)

lemma get_token_corrupted:
  "token_file st = Content c \<Longrightarrow> key_file st = Content k \<Longrightarrow>
   \<not> key_ok L k \<or> decrypt L k c = None \<Longrightarrow> get_token L seed st = (None, st)"
  using decrypt_data_fails [of st k L c seed]
  by (auto simp add: get_token_def get_token_body_def)

text \<open>
  Claim C8. Under the contract of Fernet, whatever \<open>_encrypt_data\<close> returns for a text
  (in particular for the JSON serialization of a credential pair) is decrypted by
  \<open>_decrypt_data\<close>, in the store as the encryption left it, to the same text: the key
  generated at first use is the key read back. What \<open>store_token\<close> writes to the token
  file decrypts to the serialization it was given. And when the token file holds a
  ciphertext that the key of the key file does not decrypt (or the key file holds no valid
  key), \<open>get_token\<close> returns \<open>None\<close> and leaves the store as it was: no exception
  leaves it.
\<close>

theorem encrypt_decrypt_round_trip:
  "(library_contract L \<longrightarrow>
      (encrypt_data L seed nonce st data = (Inr c, st') \<longrightarrow>
         decrypt_data L seed2 st' c = (Inr data, st')) \<and>
      (store_token L seed nonce st token ws = (True, st'') \<longrightarrow>
         (\<exists>c'. token_file st'' = Content c' \<and>
               decrypt_data L seed2 st'' c' = (Inr (dumps L (token_record L token ws)), st'')))) \<and>
   (token_file st = Content c \<and> key_file st = Content k \<and>
    (\<not> key_ok L k \<or> decrypt L k c = None) \<longrightarrow> get_token L seed st = (None, st))"
proof (intro conjI impI)
  assume "library_contract L" and "encrypt_data L seed nonce st data = (Inr c, st')"
  then show "decrypt_data L seed2 st' c = (Inr data, st')" by (rule round_trip)
next
  assume lc: "library_contract L" and s: "store_token L seed nonce st token ws = (True, st'')"
  let ?d = "dumps L (token_record L token ws)"
  from s obtain c' s1 where e: "encrypt_data L seed nonce st ?d = (Inr c', s1)"
    and w: "writable s1" and st'': "st'' = s1\<lparr>token_file := Content c'\<rparr>"
    by (auto simp add: store_token_def Let_def split: if_splits prod.splits sum.splits)
  from encrypt_data_result [OF e] obtain key
    where g: "get_or_create_key L seed st = (Inr key, s1)" and k: "key_ok L key"
      and ce: "c' = encrypt L key nonce ?d"
    by blast
  from get_or_create_key_result [OF g]
  have "key_file (s1\<lparr>token_file := Content c'\<rparr>) = Content key" by simp
  then have g2: "get_or_create_key L seed2 (s1\<lparr>token_file := Content c'\<rparr>)
      = (Inr key, s1\<lparr>token_file := Content c'\<rparr>)"
    by (rule get_or_create_key_present)
  from lc k have "decrypt L key (encrypt L key nonce ?d) = Some ?d"
    by (simp add: library_contract_def)
  with g2 k ce have "decrypt_data L seed2 (s1\<lparr>token_file := Content c'\<rparr>) c'
      = (Inr ?d, s1\<lparr>token_file := Content c'\<rparr>)"
    by (simp add: decrypt_data_def)
  with st'' show "\<exists>c'. token_file st'' = Content c' \<and>
               decrypt_data L seed2 st'' c' = (Inr ?d, st'')"
    by auto
next
  assume "token_file st = Content c \<and> key_file st = Content k \<and>
    (\<not> key_ok L k \<or> decrypt L k c = None)"
  then show "get_token L seed st = (None, st)"
    using get_token_corrupted [of st c k L seed] by blast
qed

lemma toy_contract: "library_contract toy_library"
  by (simp add: library_contract_def toy_library_def)


theorem encrypt_decrypt_round_trip_witness:
  "library_contract toy_library \<and>
   encrypt_data toy_library 0 0 empty_store ''serialized''
     = (Inr ''key0serialized'', empty_store\<lparr>key_file := Content ''key0''\<rparr>) \<and>
   decrypt_data toy_library 1 (empty_store\<lparr>key_file := Content ''key0''\<rparr>) ''key0serialized''
     = (Inr ''serialized'', empty_store\<lparr>key_file := Content ''key0''\<rparr>) \<and>
   token_file (empty_store\<lparr>token_file := Content ''damaged'', key_file := Content ''key0''\<rparr>)
     = Content ''damaged'' \<and>
   decrypt toy_library ''key0'' ''damaged'' = None \<and>
   get_token toy_library 0
       (empty_store\<lparr>token_file := Content ''damaged'', key_file := Content ''key0''\<rparr>)
     = (None, empty_store\<lparr>token_file := Content ''damaged'', key_file := Content ''key0''\<rparr>)"
proof -
  let ?s1 = "empty_store\<lparr>key_file := Content ''key0''\<rparr>"
  let ?s2 = "empty_store\<lparr>token_file := Content ''damaged'', key_file := Content ''key0''\<rparr>"
  have e: "encrypt_data toy_library 0 0 empty_store ''serialized''
     = (Inr ''key0serialized'', ?s1)"
    by (simp add: encrypt_data_def get_or_create_key_def empty_store_def toy_library_def
        Let_def)
  have f: "token_file ?s2 = Content ''damaged''" "key_file ?s2 = Content ''key0''"
    "decrypt toy_library ''key0'' ''damaged'' = None"
    by (simp_all add: toy_library_def)
  from encrypt_decrypt_round_trip
    [where L = toy_library and seed = 0 and nonce = 0 and st = empty_store
       and data = "''serialized''" and c = "''key0serialized''" and st' = ?s1 and ?seed2.0 = 1]
    toy_contract e
  have 1: "decrypt_data toy_library 1 ?s1 ''key0serialized'' = (Inr ''serialized'', ?s1)"
    by blast
  from encrypt_decrypt_round_trip
    [where L = toy_library and seed = 0 and st = ?s2 and c = "''damaged''" and k = "''key0''"] f
  have 2: "get_token toy_library 0 ?s2 = (None, ?s2)"
    by blast
  from toy_contract e 1 f 2 show ?thesis by blast
qed

lemma validate_json_token_True:
  "validate_json_token v = Inr True \<longleftrightarrow> (\<exists>t. v = JString t \<and> validate_token t)"
  by (cases v) (auto simp add: validate_json_token_def)

lemma get_token_Some_iff:
  "fst (get_token L seed st) = Some cr \<longleftrightarrow>
     (\<exists>c k m j t ws. token_file st = Content c \<and>
        fst (get_or_create_key L seed st) = Inr k \<and> key_ok L k \<and>
        decrypt L k c = Some m \<and> loads L m = Some j \<and>
        json_get j ''api_token'' = Inr (JString t) \<and> validate_token t \<and>
        json_get j ''workspace_id'' = Inr ws \<and>
        cr = \<lparr>api_token = t, workspace_id = ws\<rparr>)"
proof (cases "token_file st")
  case NoFile
  then show ?thesis by (simp add: get_token_def get_token_body_def)
next
  case Unreadable
  then show ?thesis by (simp add: get_token_def get_token_body_def)
next
  case (Content c)
  obtain rk sk where g: "get_or_create_key L seed st = (rk, sk)"
    by (cases "get_or_create_key L seed st")
  show ?thesis
  proof (cases rk)
    case (Inl e)
    with Content g show ?thesis
      by (simp add: get_token_def get_token_body_def decrypt_data_def)
  next
    case (Inr k)
    show ?thesis
    proof (cases "key_ok L k")
      case False
      with Content g Inr show ?thesis
        by (simp add: get_token_def get_token_body_def decrypt_data_def)
    next
      case True
      show ?thesis
      proof (cases "decrypt L k c")
        case None
        with Content g Inr True show ?thesis
          by (simp add: get_token_def get_token_body_def decrypt_data_def)
      next
        case (Some m)
        show ?thesis
        proof (cases "loads L m")
          case None
          with Content g Inr True Some show ?thesis
            by (simp add: get_token_def get_token_body_def decrypt_data_def)
        next
          case j: (Some j)
          show ?thesis
          proof (cases "json_get j ''api_token''")
            case (Inl e)
            with Content g Inr True Some j show ?thesis
              by (simp add: get_token_def get_token_body_def decrypt_data_def)
          next
            case tok: (Inr tok)
            show ?thesis
            proof (cases "validate_json_token tok")
              case (Inl e)
              then have "\<not> (\<exists>t. tok = JString t \<and> validate_token t)"
                using validate_json_token_True [of tok] by simp
              with Content g Inr True Some j tok Inl show ?thesis
                by (auto simp add: get_token_def get_token_body_def decrypt_data_def)
            next
              case v: (Inr b)
              show ?thesis
              proof (cases b)
                case False
                with v have "\<not> (\<exists>t. tok = JString t \<and> validate_token t)"
                  using validate_json_token_True [of tok] by simp
                with Content g Inr True Some j tok v False show ?thesis
                  by (auto simp add: get_token_def get_token_body_def decrypt_data_def)
              next
                case bt: True
                with v obtain t where t: "tok = JString t" "validate_token t"
                  using validate_json_token_True [of tok] by auto
                show ?thesis
                proof (cases "json_get j ''workspace_id''")
                  case (Inl e)
                  with Content g Inr True Some j tok v bt show ?thesis
                    by (simp add: get_token_def get_token_body_def decrypt_data_def)
                next
                  case ws: (Inr ws)
                  with Content g Inr True Some j tok v bt t show ?thesis
                    by (auto simp add: get_token_def get_token_body_def decrypt_data_def
                        json_string_def)
                qed
              qed
            qed
          qed
        qed
      qed
    qed
  qed
qed

lemma strip_no_final_space: "strip s \<noteq> [] \<Longrightarrow> \<not> is_space (last (strip s))"
proof -
  assume n: "strip s \<noteq> []"
  let ?d = "dropWhile is_space (rev (dropWhile is_space s))"
  from n have d: "?d \<noteq> []" by (simp add: strip_def)
  then have "\<not> is_space (hd ?d)" by (rule hd_dropWhile)
  moreover have "last (strip s) = hd ?d"
    using d by (simp add: strip_def last_rev)
  ultimately show ?thesis by simp
qed

lemma is_space_newline: "is_space newline"
  by (simp add: is_space_def newline_def)

lemma re_match_uuid_strip: "re_match_uuid (strip s) \<longleftrightarrow> uuid_shape (strip s)"
  using strip_no_final_space [of s] is_space_newline
  by (auto simp add: re_match_uuid_def)

lemma uuid_shape_nonempty: "uuid_shape s \<Longrightarrow> s \<noteq> []"
  by (auto simp add: uuid_shape_def)

lemma env_get_token_Some_iff:
  "env_get_token env = Some cr \<longleftrightarrow>
     prefix ''pat_'' (strip (get_or (LAYER_API_TOKEN env) [])) \<and>
     50 \<le> length (strip (get_or (LAYER_API_TOKEN env) [])) \<and>
     uuid_shape (strip (get_or (LAYER_WORKSPACE_ID env) [])) \<and>
     cr = \<lparr>api_token = strip (get_or (LAYER_API_TOKEN env) []),
           workspace_id = JString (strip (get_or (LAYER_WORKSPACE_ID env) []))\<rparr>"
  using uuid_shape_nonempty [of "strip (get_or (LAYER_WORKSPACE_ID env) [])"]
  by (auto simp add: env_get_token_def Let_def re_match_uuid_strip)


text \<open>
  Claim C3, as amended. \<open>get_credentials\<close> returns the stored credentials when the
  first tier yields them, and otherwise what the environment tier yields; it never raises.
  The first tier yields credentials exactly when the token file is readable, a key is
  read or created, the key decrypts the file, the plaintext is JSON with a string
  \<open>api_token\<close> that \<open>_validate_token\<close> accepts and with a \<open>workspace_id\<close>; in
  every other case (missing or unreadable token file, unreadable key file, key file that
  cannot be created, decryption error, malformed JSON, invalid token shape) it yields
  \<open>None\<close>. The environment tier yields credentials exactly when the stripped token
  starts with \<open>pat_\<close> and has at least 50 characters and the stripped workspace id has
  the canonical UUID shape: a rule for the token that is weaker than the rule for stored
  tokens (no upper bound on the length, no restriction on the characters).
\<close>

theorem get_credentials_tiers:
  "fst (get_credentials L seed st env) =
     (case fst (get_token L seed st) of Some cr \<Rightarrow> Some cr | None \<Rightarrow> env_get_token env) \<and>
   (fst (get_token L seed st) = Some cr \<longleftrightarrow>
     (\<exists>c k m j t ws. token_file st = Content c \<and>
        fst (get_or_create_key L seed st) = Inr k \<and> key_ok L k \<and>
        decrypt L k c = Some m \<and> loads L m = Some j \<and>
        json_get j ''api_token'' = Inr (JString t) \<and> validate_token t \<and>
        json_get j ''workspace_id'' = Inr ws \<and>
        cr = \<lparr>api_token = t, workspace_id = ws\<rparr>)) \<and>
   ((\<forall>c. token_file st \<noteq> Content c) \<longrightarrow> fst (get_token L seed st) = None) \<and>
   (key_file st = Unreadable \<longrightarrow> fst (get_token L seed st) = None) \<and>
   (key_file st = NoFile \<and> \<not> writable st \<longrightarrow> fst (get_token L seed st) = None) \<and>
   (key_file st = NoFile \<and> token_file st = Content c0 \<and>
    decrypt L (generate_key L seed) c0 = None \<longrightarrow> fst (get_token L seed st) = None) \<and>
   (env_get_token env = Some cr' \<longleftrightarrow>
     prefix ''pat_'' (strip (get_or (LAYER_API_TOKEN env) [])) \<and>
     50 \<le> length (strip (get_or (LAYER_API_TOKEN env) [])) \<and>
     uuid_shape (strip (get_or (LAYER_WORKSPACE_ID env) [])) \<and>
     cr' = \<lparr>api_token = strip (get_or (LAYER_API_TOKEN env) []),
            workspace_id = JString (strip (get_or (LAYER_WORKSPACE_ID env) []))\<rparr>)"
proof -
  have 1: "fst (get_credentials L seed st env) =
     (case fst (get_token L seed st) of Some cr \<Rightarrow> Some cr | None \<Rightarrow> env_get_token env)"
    by (simp add: get_credentials_def split: prod.splits option.splits)
  have none: "fst (get_token L seed st) = None" if "\<And>cr. fst (get_token L seed st) \<noteq> Some cr"
    using that by (cases "fst (get_token L seed st)") auto
  have 3: "(\<forall>c. token_file st \<noteq> Content c) \<longrightarrow> fst (get_token L seed st) = None"
    by (intro impI none) (simp add: get_token_Some_iff)
  have 4: "key_file st = Unreadable \<longrightarrow> fst (get_token L seed st) = None"
    by (intro impI none) (simp add: get_token_Some_iff get_or_create_key_def)
  have 5: "key_file st = NoFile \<and> \<not> writable st \<longrightarrow> fst (get_token L seed st) = None"
    by (intro impI none) (simp add: get_token_Some_iff get_or_create_key_def)
  have 6: "key_file st = NoFile \<and> token_file st = Content c0 \<and>
    decrypt L (generate_key L seed) c0 = None \<longrightarrow> fst (get_token L seed st) = None"
    by (intro impI none) (auto simp add: get_token_Some_iff get_or_create_key_def Let_def)
  from 1 3 4 5 6 get_token_Some_iff [of L seed st cr] env_get_token_Some_iff [of env cr']
  show ?thesis by blast
qed

theorem get_credentials_tiers_witness:
  "(\<forall>c. token_file empty_store \<noteq> Content c) \<and>
   fst (get_token toy_library 0 empty_store) = None \<and>
   uuid_shape (strip (get_or (LAYER_WORKSPACE_ID odd_environment) [])) \<and>
   fst (get_credentials toy_library 0 empty_store odd_environment) =
     Some \<lparr>api_token = ''pat_'' @ replicate 46 CHR ''!'',
           workspace_id = JString ''01234567-89ab-cdef-0123-456789abcdef''\<rparr>"
proof -
  let ?cr = "\<lparr>api_token = ''pat_'' @ replicate 46 CHR ''!'',
           workspace_id = JString ''01234567-89ab-cdef-0123-456789abcdef''\<rparr>"
  note t = get_credentials_tiers [of toy_library 0 empty_store odd_environment _ _ ?cr]
  have a: "\<forall>c. token_file empty_store \<noteq> Content c" by (simp add: empty_store_def)
  with t have n: "fst (get_token toy_library 0 empty_store) = None" by blast
  have s: "strip (get_or (LAYER_API_TOKEN odd_environment) []) = ''pat_'' @ replicate 46 CHR ''!''"
    "strip (get_or (LAYER_WORKSPACE_ID odd_environment) [])
       = ''01234567-89ab-cdef-0123-456789abcdef''"
    by code_simp+
  have u: "uuid_shape ''01234567-89ab-cdef-0123-456789abcdef''" by code_simp
  have p: "prefix ''pat_'' (''pat_'' @ replicate 46 CHR ''!'')"
    "50 \<le> length (''pat_'' @ replicate 46 CHR ''!'')"
    by simp_all
  from t s u p have e: "env_get_token odd_environment = Some ?cr"
    by simp
  from t n e have "fst (get_credentials toy_library 0 empty_store odd_environment) = Some ?cr"
    by simp
  with a n s u show ?thesis by simp
qed

text \<open>
  Where the claim as stated fails: with an empty store, an environment token made of the
  prefix and forty-six exclamation marks is returned as a credential, although the rule
  for stored tokens rejects it.
\<close>

theorem get_credentials_counterexample:
  "fst (get_credentials toy_library 0 empty_store odd_environment) =
     Some \<lparr>api_token = ''pat_'' @ replicate 46 CHR ''!'',
           workspace_id = JString ''01234567-89ab-cdef-0123-456789abcdef''\<rparr> \<and>
   \<not> validate_token (''pat_'' @ replicate 46 CHR ''!'')"
proof -
  have "fst (get_credentials toy_library 0 empty_store odd_environment) =
     Some \<lparr>api_token = ''pat_'' @ replicate 46 CHR ''!'',
           workspace_id = JString ''01234567-89ab-cdef-0123-456789abcdef''\<rparr>"
    by code_simp
  moreover have "\<not> validate_token (''pat_'' @ replicate 46 CHR ''!'')"
    by code_simp
  ultimately show ?thesis by simp
qed

end
